theory Spec2Isabelle
  imports Complex_Main "HOL-Library.Sublist"
begin

section \<open>Strings, character classes and JavaScript values\<close>

text \<open>
  A JavaScript string is modelled as a \<^typ>\<open>string\<close>, one \<^typ>\<open>char\<close> per code unit, so the
  model covers the strings whose code units lie in the range 0..255.  The regular
  expressions of the source carry no flags other than \<open>g\<close>: \<open>^\<close> is the start of the
  input, \<open>[a-zA-Z0-9_]\<close> is \<open>isWord\<close>, \<open>\s\<close> is \<open>isSpace\<close> (in the range 0..255 the
  white space and line terminator code units are 9, 10, 11, 12, 13, 32 and 160) and
  \<open>[^\n]\<close> is every code unit but 10.  \<open>String.prototype.trim\<close> strips the code units
  of \<open>\s\<close> from both ends.
\<close>

definition isWord :: "char \<Rightarrow> bool" where
  "isWord c \<longleftrightarrow> (let n = (of_char c :: nat) in
     (97 \<le> n \<and> n \<le> 122) \<or> (65 \<le> n \<and> n \<le> 90) \<or> (48 \<le> n \<and> n \<le> 57) \<or> n = 95)"

definition isSpace :: "char \<Rightarrow> bool" where
  "isSpace c \<longleftrightarrow> c \<in> set [CHR 0x09, CHR 0x0A, CHR 0x0B, CHR 0x0C, CHR 0x0D, CHR 0x20, CHR 0xA0]"

definition notNewline :: "char \<Rightarrow> bool" where
  "notNewline c \<longleftrightarrow> c \<noteq> CHR 0x0A"

definition trim :: "string \<Rightarrow> string" where
  "trim s = rev (dropWhile isSpace (rev (dropWhile isSpace s)))"

text \<open>
  \<open>s.replace(pat, rep)\<close> with a string pattern: the first occurrence of \<open>pat\<close> in \<open>s\<close>
  is replaced.  The replacement strings of the source are empty, so no \<open>$\<close> pattern of
  the replacement is involved.
\<close>

fun replace :: "string \<Rightarrow> string \<Rightarrow> string \<Rightarrow> string" where
  "replace [] pat rep = (if pat = [] then rep else [])"
| "replace (c # cs) pat rep =
     (if prefix pat (c # cs) then rep @ drop (length pat) (c # cs)
      else c # replace cs pat rep)"

text \<open>
  The values of type \<open>any\<close> that reach the parameter mapping: strings captured by the
  parameter regular expression, the boolean \<open>true\<close> of a bare parameter, and declared
  defaults (numbers are modelled as integers, as the built-in defaults are).
  \<open>undefined\<close> is \<open>None\<close> of an option type throughout.
\<close>

datatype jsval = Str string | Num int | Bool bool | Null

fun truthy :: "jsval \<Rightarrow> bool" where
  "truthy (Str s) = (s \<noteq> [])"
| "truthy (Num n) = (n \<noteq> 0)"
| "truthy (Bool b) = b"
| "truthy Null = False"

fun showNat :: "nat \<Rightarrow> string" where
  "showNat n = (if n < 10 then [''0123456789'' ! n]
                else showNat (n div 10) @ [''0123456789'' ! (n mod 10)])"

fun toString :: "jsval \<Rightarrow> string" where
  "toString (Str s) = s"
| "toString (Num n) = (if n < 0 then CHR ''-'' # showNat (nat (- n)) else showNat (nat n))"
| "toString (Bool b) = (if b then ''true'' else ''false'')"
| "toString Null = ''null''"

text \<open>
  \<open>params[name] = value\<close> on the plain object \<open>params = {}\<close>.  An assignment to the key
  \<open>__proto__\<close> runs the setter inherited from \<open>Object.prototype\<close>, which creates no own
  property (and ignores a value that is neither an object nor \<open>null\<close>): the mapping
  keeps its keys.  Every other key becomes an own property.
\<close>

definition assign :: "(string \<rightharpoonup> jsval) \<Rightarrow> string \<Rightarrow> jsval \<Rightarrow> (string \<rightharpoonup> jsval)" where
  "assign params k v = (if k = ''__proto__'' then params else params(k \<mapsto> v))"

section \<open>Data model (adapters/base.ts)\<close>

record ParameterDeclaration =
  param_name :: string
  param_description :: string
  param_required :: "bool option"
  param_default :: "jsval option"

record AdapterOptions =
  opt_apiVersion :: "string option"
  opt_maxTokens :: "real option"
  opt_temperature :: "real option"
  opt_baseURL :: "string option"
  opt_model :: "string option"
  opt_telemetryEnabled :: "bool option"
  opt_telemetryEndpoint :: "string option"
  opt_anonymousId :: "string option"
  opt_sessionId :: "string option"

record ModelParameters =
  mp_temperature :: "real option"
  mp_max_tokens :: "real option"
  mp_enable_thinking :: "bool option"
  mp_presence_penalty :: "real option"
  mp_frequency_penalty :: "real option"

record TransformedPrompt =
  systemPrompt :: "string option"
  userPrompt :: string
  modelParameters :: "ModelParameters option"

record TransformOptions =
  to_systemPrompt :: string
  to_parameters :: "string \<rightharpoonup> jsval"
  to_options :: AdapterOptions

text \<open>
  The \<open>transform\<close> of a built-in command is a method of the adapter bound to the adapter
  itself (\<open>this.transformThink.bind(this)\<close>), so it reads the adapter's fields when it is
  called.  A custom transform is any function; \<open>Inl msg\<close> is a rejected promise (an
  \<open>Error\<close> with message \<open>msg\<close>).
\<close>

datatype Transform =
    TransformThink | TransformFast | TransformLoop
  | TransformReflect | TransformCollapse | TransformFork
  | Custom "string \<Rightarrow> TransformOptions \<Rightarrow> string + TransformedPrompt"

record SymbolicCommand =
  name :: string
  description :: string
  aliases :: "string list option"
  parameters :: "ParameterDeclaration list option"
  transform :: Transform

datatype AdapterKind = ClaudeAdapter | OpenAIAdapter | QwenAdapter

record ModelAdapter =
  kind :: AdapterKind
  commands :: "string \<rightharpoonup> SymbolicCommand"
  aliasMap :: "string \<rightharpoonup> string"
  apiKey :: string
  options :: AdapterOptions
  baseURL :: string
  model :: string
  maxTokens :: real
  temperature :: real

record ParsedCommand =
  command :: "string option"
  cleanPrompt :: string
  parameters_of :: "string \<rightharpoonup> jsval"

section \<open>Command registry\<close>

definition registerCommand :: "ModelAdapter \<Rightarrow> SymbolicCommand \<Rightarrow> ModelAdapter" where
  "registerCommand a cmd =
     a\<lparr>commands := (commands a)(name cmd \<mapsto> cmd),
       aliasMap := (case aliases cmd of
                      None \<Rightarrow> aliasMap a
                    | Some als \<Rightarrow> fold (\<lambda>alias m. m(alias \<mapsto> name cmd)) als (aliasMap a))\<rparr>"

definition registerCoreCommands :: "ModelAdapter \<Rightarrow> ModelAdapter" where
  "registerCoreCommands a0 =
    (let a1 = registerCommand a0
           \<lparr>name = ''think'', description = ''Activate extended reasoning pathways'',
            aliases = None, parameters = None, transform = TransformThink\<rparr>;
         a2 = registerCommand a1
           \<lparr>name = ''fast'', description = ''Optimize for low-latency responses'',
            aliases = None, parameters = None, transform = TransformFast\<rparr>;
         a3 = registerCommand a2
           \<lparr>name = ''loop'', description = ''Enable iterative refinement cycles'',
            aliases = None,
            parameters = Some [\<lparr>param_name = ''iterations'',
                                 param_description = ''Number of refinement iterations'',
                                 param_required = Some False,
                                 param_default = Some (Num 3)\<rparr>],
            transform = TransformLoop\<rparr>;
         a4 = registerCommand a3
           \<lparr>name = ''reflect'', description = ''Trigger meta-analysis of outputs'',
            aliases = None, parameters = None, transform = TransformReflect\<rparr>;
         a5 = registerCommand a4
           \<lparr>name = ''collapse'', description = ''Return to default behavior'',
            aliases = None, parameters = None, transform = TransformCollapse\<rparr>;
         a6 = registerCommand a5
           \<lparr>name = ''fork'', description = ''Generate multiple alternative responses'',
            aliases = None,
            parameters = Some [\<lparr>param_name = ''count'',
                                 param_description = ''Number of alternatives to generate'',
                                 param_required = Some False,
                                 param_default = Some (Num 2)\<rparr>],
            transform = TransformFork\<rparr>
     in a6)"

section \<open>Command parser\<close>

text \<open>
  \<open>paramRegex = /--([a-zA-Z0-9_]+)(?:=([^\s]+))?/g\<close>.  \<open>matchParamAt s\<close> is the match that
  starts at the first code unit of \<open>s\<close>: both quantifiers are greedy, and since everything
  after the name is optional the longest name and the longest value always succeed, so
  no backtracking takes place.  The result is the name, the value (\<open>None\<close> when the
  optional group did not take part) and the input after the match (\<open>lastIndex\<close>).
  \<open>execParamRegex\<close> is \<open>paramRegex.exec\<close>: the leftmost position with a match.
\<close>

definition matchParamAt :: "string \<Rightarrow> ((string \<times> string option) \<times> string) option" where
  "matchParamAt s =
     (if prefix ''--'' s then
        let after = drop 2 s;
            paramName = takeWhile isWord after;
            r1 = dropWhile isWord after
        in if paramName = [] then None
           else (case r1 of
                   [] \<Rightarrow> Some ((paramName, None), r1)
                 | c # r2 \<Rightarrow>
                     if c = CHR ''='' \<and> takeWhile (\<lambda>x. \<not> isSpace x) r2 \<noteq> []
                     then Some ((paramName, Some (takeWhile (\<lambda>x. \<not> isSpace x) r2)),
                                dropWhile (\<lambda>x. \<not> isSpace x) r2)
                     else Some ((paramName, None), r1))
      else None)"

fun execParamRegex :: "string \<Rightarrow> ((string \<times> string option) \<times> string) option" where
  "execParamRegex [] = None"
| "execParamRegex (c # cs) =
     (case matchParamAt (c # cs) of
        Some m \<Rightarrow> Some m
      | None \<Rightarrow> execParamRegex cs)"

text \<open>
  The loop \<open>while ((match = paramRegex.exec(paramString)) !== null) { body }\<close>:
  \<open>whileExec body s st\<close> runs \<open>body\<close> on each successive match, starting from the
  state \<open>st\<close>; \<open>s\<close> is the part of the input from \<open>lastIndex\<close> on.
\<close>

function whileExec :: "(string \<times> string option \<Rightarrow> 'a \<Rightarrow> 'a) \<Rightarrow> string \<Rightarrow> 'a \<Rightarrow> 'a" where
  "whileExec body s st =
     (case execParamRegex s of
        None \<Rightarrow> st
      | Some (m, rest) \<Rightarrow> whileExec body rest (body m st))"
  by pat_completeness auto
termination
proof (relation "measure (\<lambda>(body, s, st). length s)")
  show "wf (measure (\<lambda>(body :: string \<times> string option \<Rightarrow> 'a \<Rightarrow> 'a, s :: string, st :: 'a). length s))"
    by simp
next
  fix body :: "string \<times> string option \<Rightarrow> 'a \<Rightarrow> 'a" and s :: string and st :: 'a and m x rest
  assume e: "execParamRegex s = Some m" and m: "(x, rest) = m"
  have at: "length r < length t" if "matchParamAt t = Some (n, r)" for t n r
  proof -
    from that have "prefix ''--'' t"
      by (auto simp: matchParamAt_def split: if_splits)
    then obtain u where t: "t = ''--'' @ u"
      by (auto simp: prefix_def)
    have l1: "length (dropWhile isWord u) \<le> length u"
      by (rule length_dropWhile_le)
    have l2: "length (dropWhile (\<lambda>x. \<not> isSpace x) r2) \<le> length r2" for r2
      by (rule length_dropWhile_le)
    from that t have "r = dropWhile isWord u \<or>
        (\<exists>c r2. dropWhile isWord u = c # r2 \<and> r = dropWhile (\<lambda>x. \<not> isSpace x) r2)"
      by (auto simp: matchParamAt_def Let_def split: if_splits list.splits)
    then show ?thesis
    proof
      assume "r = dropWhile isWord u"
      with l1 t show ?thesis by simp
    next
      assume "\<exists>c r2. dropWhile isWord u = c # r2 \<and> r = dropWhile (\<lambda>x. \<not> isSpace x) r2"
      then obtain c r2 where d: "dropWhile isWord u = c # r2"
        and r: "r = dropWhile (\<lambda>x. \<not> isSpace x) r2" by blast
      from l1 d have "length r2 < length u" by simp
      with l2 [of r2] r t show ?thesis by simp
    qed
  qed
  have ex: "execParamRegex t = Some (n, r) \<Longrightarrow> length r < length t" for t n r
  proof (induction t)
    case Nil
    then show ?case by simp
  next
    case (Cons c cs)
    show ?case
    proof (cases "matchParamAt (c # cs)")
      case None
      with Cons have "length r < length cs" by simp
      then show ?thesis by simp
    next
      case (Some a)
      with Cons.prems have "matchParamAt (c # cs) = Some (n, r)" by simp
      then show ?thesis by (rule at)
    qed
  qed
  from e m have "execParamRegex s = Some (x, rest)" by simp
  then have "length rest < length s" by (rule ex)
  then show "((body, rest, body x st), body, s, st) \<in> measure (\<lambda>(body, s, st). length s)"
    by simp
qed

declare whileExec.simps [simp del]

text \<open>The sequence of matches that the loop runs its body on.\<close>

definition paramMatches :: "string \<Rightarrow> (string \<times> string option) list" where
  "paramMatches s = whileExec (\<lambda>m acc. acc @ [m]) s []"

text \<open>
  The body of the loop in \<open>parseParameters\<close>: a match assigns its name; a match without
  a value assigns \<open>true\<close> (the destructuring default \<open>paramValue = true\<close>).
\<close>

definition assignMatch :: "string \<times> string option \<Rightarrow> (string \<rightharpoonup> jsval) \<Rightarrow> (string \<rightharpoonup> jsval)" where
  "assignMatch m params =
     (case m of (paramName, paramValue) \<Rightarrow>
        assign params paramName (case paramValue of None \<Rightarrow> Bool True | Some v \<Rightarrow> Str v))"

definition setDefaults :: "ParameterDeclaration list \<Rightarrow> (string \<rightharpoonup> jsval) \<Rightarrow> (string \<rightharpoonup> jsval)" where
  "setDefaults ps params0 =
     fold (\<lambda>param params.
             case param_default param of
               None \<Rightarrow> params
             | Some d \<Rightarrow> assign params (param_name param) d)
          ps params0"

definition parseParameters :: "ModelAdapter \<Rightarrow> string \<Rightarrow> string \<Rightarrow> (string \<rightharpoonup> jsval)" where
  "parseParameters a cmdName paramString =
     (case commands a cmdName of
        None \<Rightarrow> Map.empty
      | Some cmd \<Rightarrow>
          (case parameters cmd of
             None \<Rightarrow> Map.empty
           | Some ps \<Rightarrow>
               if ps = [] then Map.empty
               else whileExec assignMatch paramString (setDefaults ps Map.empty)))"

text \<open>
  \<open>commandRegex = /^\/([a-zA-Z0-9_]+)(?:\s+([^\n]*))?/\<close>.  The result of \<open>matchCommand\<close> is
  \<open>[fullMatch, command, rest]\<close>; \<open>rest\<close> is \<open>None\<close> when the optional group did not take
  part.  The quantifiers are greedy and the pattern after them cannot fail, so the match
  takes the longest name, then the longest run of white space (line terminators
  included), then every code unit up to the next line feed.
\<close>

definition matchCommand :: "string \<Rightarrow> (string \<times> string \<times> string option) option" where
  "matchCommand prompt =
     (case prompt of
        [] \<Rightarrow> None
      | c # cs \<Rightarrow>
          if c = CHR ''/'' \<and> takeWhile isWord cs \<noteq> [] then
            let cmd = takeWhile isWord cs;
                after = dropWhile isWord cs;
                ws = takeWhile isSpace after
            in if ws = [] then Some (c # cmd, cmd, None)
               else let rest = takeWhile notNewline (dropWhile isSpace after)
                    in Some (c # cmd @ ws @ rest, cmd, Some rest)
          else None)"

definition commandName_of :: "ModelAdapter \<Rightarrow> string \<Rightarrow> string" where
  "commandName_of a cmd =
     (case aliasMap a cmd of
        None \<Rightarrow> cmd
      | Some target \<Rightarrow> if target = [] then cmd else target)"

definition parseCommand :: "ModelAdapter \<Rightarrow> string \<Rightarrow> ParsedCommand" where
  "parseCommand a prompt =
     (case matchCommand prompt of
        None \<Rightarrow> \<lparr>command = None, cleanPrompt = prompt, parameters_of = Map.empty\<rparr>
      | Some (fullMatch, cmd, rest) \<Rightarrow>
          let commandName = commandName_of a cmd
          in if commands a commandName = None
             then \<lparr>command = None, cleanPrompt = prompt, parameters_of = Map.empty\<rparr>
             else \<lparr>command = Some commandName,
                   cleanPrompt = trim (replace prompt fullMatch []),
                   parameters_of = parseParameters a commandName
                                     (case rest of None \<Rightarrow> [] | Some r \<Rightarrow> r)\<rparr>)"

section \<open>Provider adapters\<close>

text \<open>
  JavaScript numbers are modelled as real numbers: the arithmetic of the transforms
  (\<open>t - 0.2\<close>, \<open>t + 0.1\<close>, \<open>Math.min\<close>, \<open>Math.max\<close>) is exact in the model.  The order
  properties proved below only use that adding a positive constant does not decrease a
  number and subtracting one does not increase it, which rounding to the nearest double
  preserves.  \<open>x || d\<close> on a number takes \<open>d\<close> when \<open>x\<close> is \<open>undefined\<close> or \<open>0\<close>; on a
  string, when it is \<open>undefined\<close> or empty.
\<close>

definition orNum :: "real option \<Rightarrow> real \<Rightarrow> real" where
  "orNum x d = (case x of None \<Rightarrow> d | Some v \<Rightarrow> if v = 0 then d else v)"

definition orStr :: "string option \<Rightarrow> string \<Rightarrow> string" where
  "orStr x d = (case x of None \<Rightarrow> d | Some v \<Rightarrow> if v = [] then d else v)"

definition orElse :: "jsval option \<Rightarrow> jsval \<Rightarrow> jsval" where
  "orElse x d = (case x of None \<Rightarrow> d | Some v \<Rightarrow> if truthy v then v else d)"

definition noModelParameters :: ModelParameters where
  "noModelParameters =
     \<lparr>mp_temperature = None, mp_max_tokens = None, mp_enable_thinking = None,
      mp_presence_penalty = None, mp_frequency_penalty = None\<rparr>"

text \<open>
  The constructor of the base class runs \<open>registerCoreCommands\<close> before the constructor
  of the subclass sets its own fields; the registration reads none of them.
\<close>

definition ModelAdapter_new :: "AdapterKind \<Rightarrow> string \<Rightarrow> AdapterOptions \<Rightarrow> ModelAdapter" where
  "ModelAdapter_new k key opts =
     registerCoreCommands
       \<lparr>kind = k, commands = Map.empty, aliasMap = Map.empty, apiKey = key, options = opts,
        baseURL = [], model = [], maxTokens = 0, temperature = 0\<rparr>"

definition ClaudeAdapter_new :: "string \<Rightarrow> AdapterOptions \<Rightarrow> ModelAdapter" where
  "ClaudeAdapter_new key opts =
     (ModelAdapter_new ClaudeAdapter key opts)
       \<lparr>baseURL := orStr (opt_baseURL opts) ''https://api.anthropic.com'',
        model := orStr (opt_model opts) ''claude-3-opus-20240229'',
        maxTokens := orNum (opt_maxTokens opts) 4096,
        temperature := orNum (opt_temperature opts) (7/10)\<rparr>"

definition OpenAIAdapter_new :: "string \<Rightarrow> AdapterOptions \<Rightarrow> ModelAdapter" where
  "OpenAIAdapter_new key opts =
     (ModelAdapter_new OpenAIAdapter key opts)
       \<lparr>baseURL := orStr (opt_baseURL opts) ''https://api.openai.com'',
        model := orStr (opt_model opts) ''gpt-4'',
        maxTokens := orNum (opt_maxTokens opts) 4096,
        temperature := orNum (opt_temperature opts) (7/10)\<rparr>"

definition QwenAdapter_new :: "string \<Rightarrow> AdapterOptions \<Rightarrow> ModelAdapter" where
  "QwenAdapter_new key opts =
     (ModelAdapter_new QwenAdapter key opts)
       \<lparr>baseURL := orStr (opt_baseURL opts) ''https://api.qwen.ai'',
        model := orStr (opt_model opts) ''qwen3-30b-a3b'',
        maxTokens := orNum (opt_maxTokens opts) 4096,
        temperature := orNum (opt_temperature opts) (7/10)\<rparr>"

subsection \<open>ClaudeAdapter (adapters/claude.ts)\<close>

definition Claude_transformThink :: "ModelAdapter \<Rightarrow> string \<Rightarrow> TransformOptions \<Rightarrow> TransformedPrompt" where
  "Claude_transformThink a prompt opts =
     \<lparr>systemPrompt = Some (to_systemPrompt opts
                     @ ''\<newline>For this response, I'd like you to engage your deepest analytical capabilities. Please think step by step through this problem, considering multiple perspectives and potential approaches. Take your time to develop a comprehensive, nuanced understanding before providing your final answer.''),
       userPrompt = prompt,
       modelParameters = Some (noModelParameters\<lparr>mp_temperature := Some (max (1/10) (temperature a - 2/10)), mp_enable_thinking := Some True\<rparr>)\<rparr>"

definition Claude_transformFast :: "ModelAdapter \<Rightarrow> string \<Rightarrow> TransformOptions \<Rightarrow> TransformedPrompt" where
  "Claude_transformFast a prompt opts =
     \<lparr>systemPrompt = Some (to_systemPrompt opts
                     @ ''\<newline>Please provide a brief, direct response to this question. Focus on the most important information and keep your answer concise and to the point.''),
       userPrompt = prompt,
       modelParameters = Some (noModelParameters\<lparr>mp_temperature := Some (min 1 (temperature a + 1/10)), mp_max_tokens := Some (min (maxTokens a) 1024), mp_enable_thinking := Some False\<rparr>)\<rparr>"

definition Claude_transformLoop :: "ModelAdapter \<Rightarrow> string \<Rightarrow> TransformOptions \<Rightarrow> TransformedPrompt" where
  "Claude_transformLoop a prompt opts =
     (let iterations = orElse (to_parameters opts ''iterations'') (Num 3) in
      \<lparr>systemPrompt = Some (to_systemPrompt opts
                     @ ''\<newline>Please approach this task using an iterative process. Follow these steps:\<newline>\<newline>1. Develop an initial response to the prompt.\<newline>2. Critically review your response, identifying areas for improvement.\<newline>3. Create an improved version based on your critique.\<newline>4. Repeat steps 2-3 for a total of ''
                     @ toString iterations
                     @ '' iterations.\<newline>5. Present your final response, which should reflect the accumulated improvements.\<newline>\<newline>Show all iterations in your response, clearly labeled.''),
       userPrompt = prompt,
       modelParameters = Some (noModelParameters\<lparr>mp_temperature := Some (temperature a), mp_max_tokens := Some (maxTokens a)\<rparr>)\<rparr>)"

definition Claude_transformReflect :: "ModelAdapter \<Rightarrow> string \<Rightarrow> TransformOptions \<Rightarrow> TransformedPrompt" where
  "Claude_transformReflect a prompt opts =
     \<lparr>systemPrompt = Some (to_systemPrompt opts
                     @ ''\<newline>For this response, I'd like you to engage in two distinct phases:\<newline>\<newline>1. First, respond to the user's query directly.\<newline>2. Then, reflect on your own response by considering:\<newline>   - What assumptions did you make in your answer?\<newline>   - What perspectives or viewpoints might be underrepresented?\<newline>   - What limitations exist in your approach or knowledge?\<newline>   - How might your response be improved or expanded?\<newline>\<newline>Clearly separate these two phases in your response.''),
       userPrompt = prompt,
       modelParameters = Some (noModelParameters\<lparr>mp_temperature := Some (max (1/10) (temperature a - 1/10)), mp_enable_thinking := Some True\<rparr>)\<rparr>"

definition Claude_transformCollapse :: "ModelAdapter \<Rightarrow> string \<Rightarrow> TransformOptions \<Rightarrow> TransformedPrompt" where
  "Claude_transformCollapse a prompt opts =
     \<lparr>systemPrompt = Some (to_systemPrompt opts),
       userPrompt = prompt,
       modelParameters = Some (noModelParameters\<lparr>mp_temperature := Some (temperature a), mp_max_tokens := Some (maxTokens a), mp_enable_thinking := Some False\<rparr>)\<rparr>"

definition Claude_transformFork :: "ModelAdapter \<Rightarrow> string \<Rightarrow> TransformOptions \<Rightarrow> TransformedPrompt" where
  "Claude_transformFork a prompt opts =
     (let count = orElse (to_parameters opts ''count'') (Num 2) in
      \<lparr>systemPrompt = Some (to_systemPrompt opts
                     @ ''\<newline>Please provide ''
                     @ toString count
                     @ '' distinct alternative responses to this prompt. These alternatives should represent fundamentally different approaches or perspectives, not minor variations. Label each alternative clearly.''),
       userPrompt = prompt,
       modelParameters = Some (noModelParameters\<lparr>mp_temperature := Some (min 1 (temperature a + 2/10)), mp_max_tokens := Some (maxTokens a)\<rparr>)\<rparr>)"

subsection \<open>OpenAIAdapter (adapters/openai.ts)\<close>

definition OpenAI_transformThink :: "ModelAdapter \<Rightarrow> string \<Rightarrow> TransformOptions \<Rightarrow> TransformedPrompt" where
  "OpenAI_transformThink a prompt opts =
     \<lparr>systemPrompt = Some (to_systemPrompt opts
                     @ ''\<newline>When responding to this query, please use the following approach:\<newline>1. Take a deep breath and think step-by-step about the problem\<newline>2. Break down complex aspects into simpler components\<newline>3. Consider multiple perspectives and approaches\<newline>4. Identify potential misconceptions or errors in reasoning\<newline>5. Synthesize your analysis into a comprehensive response\<newline>6. Structure your thinking process visibly with clear sections:\<newline>   a. Initial Analysis\<newline>   b. Detailed Exploration\<newline>   c. Synthesis and Conclusion''),
       userPrompt = prompt,
       modelParameters = Some (noModelParameters\<lparr>mp_temperature := Some (max (1/10) (temperature a - 2/10)), mp_max_tokens := Some (maxTokens a)\<rparr>)\<rparr>"

definition OpenAI_transformFast :: "ModelAdapter \<Rightarrow> string \<Rightarrow> TransformOptions \<Rightarrow> TransformedPrompt" where
  "OpenAI_transformFast a prompt opts =
     \<lparr>systemPrompt = Some (to_systemPrompt opts
                     @ ''\<newline>Please provide a concise, direct response. Focus only on the most essential information needed to answer the query. Keep explanations minimal and prioritize brevity over comprehensiveness.''),
       userPrompt = prompt,
       modelParameters = Some (noModelParameters\<lparr>mp_temperature := Some (min 1 (temperature a + 1/10)), mp_max_tokens := Some (min (maxTokens a) 1024), mp_presence_penalty := Some 1, mp_frequency_penalty := Some 1\<rparr>)\<rparr>"

definition OpenAI_transformLoop :: "ModelAdapter \<Rightarrow> string \<Rightarrow> TransformOptions \<Rightarrow> TransformedPrompt" where
  \<open>OpenAI_transformLoop a prompt opts =
     (let iterations = orElse (to_parameters opts ''iterations'') (Num 3) in
      \<lparr>systemPrompt = Some (to_systemPrompt opts
                     @ ''\<newline>Please approach this task using an iterative refinement process with ''
                     @ toString iterations
                     @ '' cycles:\<newline>\<newline>1. Initial Version: Create your first response to the query\<newline>2. Critical Review: Analyze the strengths and weaknesses of your response\<newline>3. Improved Version: Create an enhanced version addressing the identified issues\<newline>4. Repeat steps 2-3 for each iteration\<newline>5. Final Version: Provide your most refined response\<newline>\<newline>Clearly label each iteration (e.g., "Iteration 1", "Critique 1", etc.) in your response.''),
       userPrompt = prompt,
       modelParameters = Some (noModelParameters\<lparr>mp_temperature := Some (temperature a), mp_max_tokens := Some (maxTokens a)\<rparr>)\<rparr>)\<close>

definition OpenAI_transformReflect :: "ModelAdapter \<Rightarrow> string \<Rightarrow> TransformOptions \<Rightarrow> TransformedPrompt" where
  "OpenAI_transformReflect a prompt opts =
     \<lparr>systemPrompt = Some (to_systemPrompt opts
                     @ ''\<newline>For this query, please structure your response in two distinct parts:\<newline>\<newline>PART 1: DIRECT RESPONSE\<newline>Provide your primary answer to the user's query.\<newline>\<newline>PART 2: META-REFLECTION\<newline>Then, engage in critical reflection on your own response by addressing:\<newline>- What assumptions did you make in your answer?\<newline>- What alternative perspectives might be valid?\<newline>- What are the limitations of your response?\<newline>- How might your response be improved?\<newline>- What cognitive biases might have influenced your thinking?\<newline>\<newline>Make sure both parts are clearly labeled and distinguishable.''),
       userPrompt = prompt,
       modelParameters = Some (noModelParameters\<lparr>mp_temperature := Some (max (1/10) (temperature a - 1/10)), mp_max_tokens := Some (maxTokens a)\<rparr>)\<rparr>"

definition OpenAI_transformCollapse :: "ModelAdapter \<Rightarrow> string \<Rightarrow> TransformOptions \<Rightarrow> TransformedPrompt" where
  "OpenAI_transformCollapse a prompt opts =
     \<lparr>systemPrompt = Some (to_systemPrompt opts),
       userPrompt = prompt,
       modelParameters = Some (noModelParameters\<lparr>mp_temperature := Some (temperature a), mp_max_tokens := Some (maxTokens a)\<rparr>)\<rparr>"

definition OpenAI_transformFork :: "ModelAdapter \<Rightarrow> string \<Rightarrow> TransformOptions \<Rightarrow> TransformedPrompt" where
  \<open>OpenAI_transformFork a prompt opts =
     (let count = orElse (to_parameters opts ''count'') (Num 2) in
      \<lparr>systemPrompt = Some (to_systemPrompt opts
                     @ ''\<newline>Please provide ''
                     @ toString count
                     @ '' substantively different responses to this prompt. Each alternative should represent a different approach, perspective, or framework. Clearly label each alternative (e.g., "Alternative 1", "Alternative 2", etc.).''),
       userPrompt = prompt,
       modelParameters = Some (noModelParameters\<lparr>mp_temperature := Some (min 1 (temperature a + 2/10)), mp_max_tokens := Some (maxTokens a)\<rparr>)\<rparr>)\<close>

subsection \<open>QwenAdapter (adapters/qwen.ts)\<close>

definition Qwen_transformThink :: "ModelAdapter \<Rightarrow> string \<Rightarrow> TransformOptions \<Rightarrow> TransformedPrompt" where
  "Qwen_transformThink a prompt opts =
     \<lparr>systemPrompt = Some (to_systemPrompt opts),
       userPrompt = (if suffix ''/think'' (trim prompt) then prompt else prompt @ '' /think''),
       modelParameters = Some (noModelParameters\<lparr>mp_temperature := Some (max (1/10) (temperature a - 2/10)), mp_enable_thinking := Some True\<rparr>)\<rparr>"

definition Qwen_transformFast :: "ModelAdapter \<Rightarrow> string \<Rightarrow> TransformOptions \<Rightarrow> TransformedPrompt" where
  "Qwen_transformFast a prompt opts =
     \<lparr>systemPrompt = Some (to_systemPrompt opts
                     @ ''\<newline>Provide brief, direct responses. Focus on essential information only.''),
       userPrompt = (if suffix ''/no_think'' (trim prompt) then prompt else prompt @ '' /no_think''),
       modelParameters = Some (noModelParameters\<lparr>mp_temperature := Some (min 1 (temperature a + 1/10)), mp_max_tokens := Some (min (maxTokens a) 1024), mp_enable_thinking := Some False\<rparr>)\<rparr>"

definition Qwen_transformLoop :: "ModelAdapter \<Rightarrow> string \<Rightarrow> TransformOptions \<Rightarrow> TransformedPrompt" where
  "Qwen_transformLoop a prompt opts =
     (let iterations = orElse (to_parameters opts ''iterations'') (Num 3) in
      \<lparr>systemPrompt = Some (to_systemPrompt opts
                     @ ''\<newline>Please use an iterative approach with ''
                     @ toString iterations
                     @ '' refinement cycles:\<newline>1. Initial response\<newline>2. Critical review\<newline>3. Improvement\<newline>4. Repeat steps 2-3 for a total of ''
                     @ toString iterations
                     @ '' iterations\<newline>5. Present your final response with all iterations clearly labeled''),
       userPrompt = prompt,
       modelParameters = Some (noModelParameters\<lparr>mp_temperature := Some (temperature a), mp_enable_thinking := Some True\<rparr>)\<rparr>)"

definition Qwen_transformReflect :: "ModelAdapter \<Rightarrow> string \<Rightarrow> TransformOptions \<Rightarrow> TransformedPrompt" where
  "Qwen_transformReflect a prompt opts =
     \<lparr>systemPrompt = Some (to_systemPrompt opts
                     @ ''\<newline>For this response, please:\<newline>1. Answer the query directly\<newline>2. Then reflect on your answer by analyzing:\<newline>   - Assumptions made\<newline>   - Alternative perspectives\<newline>   - Limitations in your approach\<newline>   - Potential improvements''),
       userPrompt = prompt @ '' /think'',
       modelParameters = Some (noModelParameters\<lparr>mp_temperature := Some (max (1/10) (temperature a - 1/10)), mp_enable_thinking := Some True\<rparr>)\<rparr>"

definition Qwen_transformCollapse :: "ModelAdapter \<Rightarrow> string \<Rightarrow> TransformOptions \<Rightarrow> TransformedPrompt" where
  "Qwen_transformCollapse a prompt opts =
     \<lparr>systemPrompt = Some (to_systemPrompt opts),
       userPrompt = prompt @ '' /no_think'',
       modelParameters = Some (noModelParameters\<lparr>mp_temperature := Some (temperature a), mp_max_tokens := Some (maxTokens a), mp_enable_thinking := Some False\<rparr>)\<rparr>"

definition Qwen_transformFork :: "ModelAdapter \<Rightarrow> string \<Rightarrow> TransformOptions \<Rightarrow> TransformedPrompt" where
  "Qwen_transformFork a prompt opts =
     (let count = orElse (to_parameters opts ''count'') (Num 2) in
      \<lparr>systemPrompt = Some (to_systemPrompt opts
                     @ ''\<newline>Please provide ''
                     @ toString count
                     @ '' distinct alternative responses to this prompt, representing different approaches or perspectives. Label each alternative clearly.''),
       userPrompt = prompt,
       modelParameters = Some (noModelParameters\<lparr>mp_temperature := Some (min 1 (temperature a + 2/10)), mp_max_tokens := Some (maxTokens a), mp_enable_thinking := Some True\<rparr>)\<rparr>)"

subsection \<open>Dispatch of the bound transform methods\<close>

definition transformThink :: "ModelAdapter \<Rightarrow> string \<Rightarrow> TransformOptions \<Rightarrow> TransformedPrompt" where
  "transformThink a =
     (case kind a of
        ClaudeAdapter \<Rightarrow> Claude_transformThink a
      | OpenAIAdapter \<Rightarrow> OpenAI_transformThink a
      | QwenAdapter \<Rightarrow> Qwen_transformThink a)"

definition transformFast :: "ModelAdapter \<Rightarrow> string \<Rightarrow> TransformOptions \<Rightarrow> TransformedPrompt" where
  "transformFast a =
     (case kind a of
        ClaudeAdapter \<Rightarrow> Claude_transformFast a
      | OpenAIAdapter \<Rightarrow> OpenAI_transformFast a
      | QwenAdapter \<Rightarrow> Qwen_transformFast a)"

definition transformLoop :: "ModelAdapter \<Rightarrow> string \<Rightarrow> TransformOptions \<Rightarrow> TransformedPrompt" where
  "transformLoop a =
     (case kind a of
        ClaudeAdapter \<Rightarrow> Claude_transformLoop a
      | OpenAIAdapter \<Rightarrow> OpenAI_transformLoop a
      | QwenAdapter \<Rightarrow> Qwen_transformLoop a)"

definition transformReflect :: "ModelAdapter \<Rightarrow> string \<Rightarrow> TransformOptions \<Rightarrow> TransformedPrompt" where
  "transformReflect a =
     (case kind a of
        ClaudeAdapter \<Rightarrow> Claude_transformReflect a
      | OpenAIAdapter \<Rightarrow> OpenAI_transformReflect a
      | QwenAdapter \<Rightarrow> Qwen_transformReflect a)"

definition transformCollapse :: "ModelAdapter \<Rightarrow> string \<Rightarrow> TransformOptions \<Rightarrow> TransformedPrompt" where
  "transformCollapse a =
     (case kind a of
        ClaudeAdapter \<Rightarrow> Claude_transformCollapse a
      | OpenAIAdapter \<Rightarrow> OpenAI_transformCollapse a
      | QwenAdapter \<Rightarrow> Qwen_transformCollapse a)"

definition transformFork :: "ModelAdapter \<Rightarrow> string \<Rightarrow> TransformOptions \<Rightarrow> TransformedPrompt" where
  "transformFork a =
     (case kind a of
        ClaudeAdapter \<Rightarrow> Claude_transformFork a
      | OpenAIAdapter \<Rightarrow> OpenAI_transformFork a
      | QwenAdapter \<Rightarrow> Qwen_transformFork a)"

fun applyTransform ::
  "ModelAdapter \<Rightarrow> Transform \<Rightarrow> string \<Rightarrow> TransformOptions \<Rightarrow> string + TransformedPrompt" where
  "applyTransform a TransformThink p opts = Inr (transformThink a p opts)"
| "applyTransform a TransformFast p opts = Inr (transformFast a p opts)"
| "applyTransform a TransformLoop p opts = Inr (transformLoop a p opts)"
| "applyTransform a TransformReflect p opts = Inr (transformReflect a p opts)"
| "applyTransform a TransformCollapse p opts = Inr (transformCollapse a p opts)"
| "applyTransform a TransformFork p opts = Inr (transformFork a p opts)"
| "applyTransform a (Custom f) p opts = f p opts"

subsection \<open>executePrompt\<close>

text \<open>
  The network is a parameter of the model: \<open>post req\<close> is what the \<open>try\<close> block of
  \<open>executePrompt\<close> obtains from \<open>axios.post\<close> and from reading the completion out of the
  response body.  \<open>Inl msg\<close> is an exception with message \<open>msg\<close> thrown there (a network
  error, a status outside 2xx, or a body without the expected fields); \<open>Inr\<close> carries the
  fields that were read.  An exception is an \<open>Error\<close> with its message.
\<close>

datatype error = Error string

record HttpRequest =
  req_url :: string
  req_headers :: "(string \<times> string) list"
  req_model :: string
  req_messages :: "(string \<times> string) list"
  req_max_tokens :: real
  req_temperature :: real
  req_enable_thinking :: "bool option"
  req_presence_penalty :: "real option"
  req_frequency_penalty :: "real option"

record ResponseData =
  thinking_content :: "string option"
  completion :: string

type_synonym http = "HttpRequest \<Rightarrow> string + ResponseData"

definition providerLabel :: "AdapterKind \<Rightarrow> string" where
  "providerLabel k = (case k of ClaudeAdapter \<Rightarrow> ''Claude'' | OpenAIAdapter \<Rightarrow> ''OpenAI'' | QwenAdapter \<Rightarrow> ''Qwen'')"

definition executeError :: "ModelAdapter \<Rightarrow> string \<Rightarrow> error" where
  "executeError a msg = Error (''Failed to execute '' @ providerLabel (kind a) @ '' prompt: '' @ msg)"

definition buildMessages :: "TransformedPrompt \<Rightarrow> (string \<times> string) list" where
  "buildMessages t =
     (case systemPrompt t of
        None \<Rightarrow> []
      | Some sp \<Rightarrow> if sp = [] then [] else [(''system'', sp)])
     @ [(''user'', userPrompt t)]"

definition buildRequest :: "ModelAdapter \<Rightarrow> TransformedPrompt \<Rightarrow> HttpRequest" where
  "buildRequest a t =
     (let mp = modelParameters t;
          common = \<lparr>req_url = [], req_headers = [],
                    req_model = model a,
                    req_messages = buildMessages t,
                    req_max_tokens = orNum (Option.bind mp mp_max_tokens) (maxTokens a),
                    req_temperature = orNum (Option.bind mp mp_temperature) (temperature a),
                    req_enable_thinking = None,
                    req_presence_penalty = None,
                    req_frequency_penalty = None\<rparr>
      in case kind a of
           ClaudeAdapter \<Rightarrow>
             common\<lparr>req_url := baseURL a @ ''/v1/messages'',
                    req_headers := [(''Content-Type'', ''application/json''),
                                    (''x-api-key'', apiKey a),
                                    (''anthropic-version'', ''2023-06-01'')],
                    req_enable_thinking := Option.bind mp mp_enable_thinking\<rparr>
         | OpenAIAdapter \<Rightarrow>
             common\<lparr>req_url := baseURL a @ ''/v1/chat/completions'',
                    req_headers := [(''Content-Type'', ''application/json''),
                                    (''Authorization'', ''Bearer '' @ apiKey a)],
                    req_presence_penalty := Option.bind mp mp_presence_penalty,
                    req_frequency_penalty := Option.bind mp mp_frequency_penalty\<rparr>
         | QwenAdapter \<Rightarrow>
             common\<lparr>req_url := baseURL a @ ''/v1/chat/completions'',
                    req_headers := [(''Content-Type'', ''application/json''),
                                    (''Authorization'', ''Bearer '' @ apiKey a)],
                    req_enable_thinking := Option.bind mp mp_enable_thinking\<rparr>)"

definition readCompletion :: "ModelAdapter \<Rightarrow> ResponseData \<Rightarrow> string" where
  "readCompletion a r =
     (case kind a of
        QwenAdapter \<Rightarrow>
          (case thinking_content r of
             None \<Rightarrow> []
           | Some th \<Rightarrow> if th = [] then []
                        else ''<thinking>\<newline>'' @ th @ ''\<newline></thinking>\<newline>\<newline>'')
          @ completion r
      | _ \<Rightarrow> completion r)"

text \<open>
  \<open>executePrompt\<close> receives \<open>undefined\<close> (\<open>None\<close>) when the optional call
  \<open>this.commands.get(command)?.transform(...)\<close> finds no command; reading
  \<open>transformed.systemPrompt\<close> then throws a \<open>TypeError\<close> inside the \<open>try\<close> block.
\<close>

definition executePrompt :: "http \<Rightarrow> ModelAdapter \<Rightarrow> TransformedPrompt option \<Rightarrow> error + string" where
  "executePrompt post a transformed =
     (case transformed of
        None \<Rightarrow> Inl (executeError a
                  ''Cannot read properties of undefined (reading 'systemPrompt')'')
      | Some t \<Rightarrow>
          (case post (buildRequest a t) of
             Inl msg \<Rightarrow> Inl (executeError a msg)
           | Inr r \<Rightarrow> Inr (readCompletion a r)))"

subsection \<open>ModelAdapter.generate\<close>

record GenerateOptions =
  g_prompt :: string
  g_systemPrompt :: "string option"

text \<open>
  The first half of \<open>generate\<close>: the value of \<open>transformed\<close>, or the rejection of a custom
  transform.  A command that is \<open>null\<close> or the empty string is falsy.
\<close>

definition transformPrompt :: "ModelAdapter \<Rightarrow> GenerateOptions \<Rightarrow> error + TransformedPrompt option" where
  "transformPrompt a input =
     (let prompt = g_prompt input;
          sp = (case g_systemPrompt input of None \<Rightarrow> [] | Some s \<Rightarrow> s);
          pc = parseCommand a prompt;
          plain = \<lparr>systemPrompt = Some sp, userPrompt = prompt, modelParameters = None\<rparr>
      in case command pc of
           None \<Rightarrow> Inr (Some plain)
         | Some c \<Rightarrow>
             if c = [] then Inr (Some plain)
             else (case commands a c of
                     None \<Rightarrow> Inr None
                   | Some cmd \<Rightarrow>
                       (case applyTransform a (transform cmd) (cleanPrompt pc)
                               \<lparr>to_systemPrompt = sp,
                                to_parameters = parameters_of pc,
                                to_options = options a\<rparr> of
                          Inl msg \<Rightarrow> Inl (Error msg)
                        | Inr t \<Rightarrow> Inr (Some t))))"

definition ModelAdapter_generate :: "http \<Rightarrow> ModelAdapter \<Rightarrow> GenerateOptions \<Rightarrow> error + string" where
  "ModelAdapter_generate post a input =
     (case transformPrompt a input of
        Inl e \<Rightarrow> Inl e
      | Inr transformed \<Rightarrow> executePrompt post a transformed)"

section \<open>Facade (index.ts)\<close>

record UniversalLLMOptions =
  provider :: string
  o_apiKey :: string
  adapterOptions :: AdapterOptions

record SymbolicTelemetry =
  enabled :: bool
  endpoint :: "string option"
  anonymousId :: "string option"
  sessionId :: "string option"

record UniversalLLM =
  adapter :: ModelAdapter
  telemetry :: SymbolicTelemetry
  sessionCommands :: "string \<rightharpoonup> nat"

text \<open>
  A telemetry event is the POST that \<open>sendTelemetry\<close> issues (its outcome is ignored by
  the source); the time stamp is left out.
\<close>

record TelemetryEvent =
  ev_endpoint :: string
  ev_event :: string
  ev_command :: string
  ev_provider :: string
  ev_prompt_length :: nat
  ev_anonymousId :: "string option"
  ev_sessionId :: "string option"

definition createAdapter :: "UniversalLLMOptions \<Rightarrow> error + ModelAdapter" where
  "createAdapter opts =
     (if provider opts = ''anthropic'' then Inr (ClaudeAdapter_new (o_apiKey opts) (adapterOptions opts))
      else if provider opts = ''openai'' then Inr (OpenAIAdapter_new (o_apiKey opts) (adapterOptions opts))
      else if provider opts = ''qwen'' then Inr (QwenAdapter_new (o_apiKey opts) (adapterOptions opts))
      else Inl (Error (''Unsupported provider: '' @ provider opts)))"

text \<open>
  The constructor.  \<open>ids\<close> are the identifiers that \<open>generateAnonymousId\<close> and
  \<open>generateSessionId\<close> draw from \<open>Math.random\<close> and the clock.
\<close>

definition UniversalLLM_new :: "string \<times> string \<Rightarrow> UniversalLLMOptions \<Rightarrow> error + UniversalLLM" where
  "UniversalLLM_new ids opts =
     (case createAdapter opts of
        Inl e \<Rightarrow> Inl e
      | Inr a \<Rightarrow>
          Inr \<lparr>adapter = a,
               telemetry =
                 \<lparr>enabled = (opt_telemetryEnabled (adapterOptions opts) \<noteq> Some False),
                  endpoint = Some (orStr (opt_telemetryEndpoint (adapterOptions opts))
                                     ''https://telemetry.universal-developer.org/v1/events''),
                  anonymousId = Some (orStr (opt_anonymousId (adapterOptions opts)) (fst ids)),
                  sessionId = Some (orStr (opt_sessionId (adapterOptions opts)) (snd ids))\<rparr>,
               sessionCommands = Map.empty\<rparr>)"

definition UniversalLLM_registerCommand :: "UniversalLLM \<Rightarrow> string \<Rightarrow> SymbolicCommand \<Rightarrow> UniversalLLM" where
  "UniversalLLM_registerCommand llm n cmd =
     llm\<lparr>adapter := registerCommand (adapter llm) (cmd\<lparr>name := n\<rparr>)\<rparr>"

definition trackCommandUsage :: "UniversalLLM \<Rightarrow> string \<Rightarrow> UniversalLLM" where
  "trackCommandUsage llm cmd =
     (let currentCount = (case sessionCommands llm cmd of None \<Rightarrow> 0 | Some n \<Rightarrow> n)
      in llm\<lparr>sessionCommands := (sessionCommands llm)(cmd \<mapsto> currentCount + 1)\<rparr>)"

definition getCommandUsageStats :: "UniversalLLM \<Rightarrow> (string \<rightharpoonup> nat)" where
  "getCommandUsageStats llm = sessionCommands llm"

definition setTelemetryEnabled :: "UniversalLLM \<Rightarrow> bool \<Rightarrow> UniversalLLM" where
  "setTelemetryEnabled llm b = llm\<lparr>telemetry := (telemetry llm)\<lparr>enabled := b\<rparr>\<rparr>"

definition providerName :: "AdapterKind \<Rightarrow> string" where
  "providerName k = (case k of ClaudeAdapter \<Rightarrow> ''claude'' | OpenAIAdapter \<Rightarrow> ''openai'' | QwenAdapter \<Rightarrow> ''qwen'')"

definition sendTelemetry :: "UniversalLLM \<Rightarrow> string \<Rightarrow> string \<Rightarrow> TelemetryEvent list" where
  "sendTelemetry llm cmd prompt =
     (case endpoint (telemetry llm) of
        None \<Rightarrow> []
      | Some ep \<Rightarrow>
          if \<not> enabled (telemetry llm) \<or> ep = [] then []
          else [\<lparr>ev_endpoint = ep,
                 ev_event = ''symbolic_command_used'',
                 ev_command = cmd,
                 ev_provider = providerName (kind (adapter llm)),
                 ev_prompt_length = length prompt,
                 ev_anonymousId = anonymousId (telemetry llm),
                 ev_sessionId = sessionId (telemetry llm)\<rparr>])"

text \<open>\<open>options.prompt.match(/^\/([a-zA-Z0-9_]+)/)\<close>: the first capture group, or \<open>null\<close>.\<close>

definition commandMatch :: "string \<Rightarrow> string option" where
  "commandMatch prompt =
     (case prompt of
        [] \<Rightarrow> None
      | c # cs \<Rightarrow> if c = CHR ''/'' \<and> takeWhile isWord cs \<noteq> [] then Some (takeWhile isWord cs) else None)"

text \<open>
  \<open>UniversalLLM.generate\<close> returns the outcome (the response, or the error that rejects
  the promise), the facade after the call, and the telemetry events issued.  When the
  adapter's \<open>generate\<close> rejects, the \<open>await\<close> rethrows and the rest of the body does not
  run.
\<close>

definition UniversalLLM_generate ::
  "http \<Rightarrow> UniversalLLM \<Rightarrow> GenerateOptions \<Rightarrow> (error + string) \<times> UniversalLLM \<times> TelemetryEvent list" where
  "UniversalLLM_generate post llm opts =
     (let cmd = commandMatch (g_prompt opts);
          llm1 = (case cmd of
                    None \<Rightarrow> llm
                  | Some c \<Rightarrow> if c = [] then llm else trackCommandUsage llm c)
      in case ModelAdapter_generate post (adapter llm1) opts of
           Inl e \<Rightarrow> (Inl e, llm1, [])
         | Inr response \<Rightarrow>
             (Inr response, llm1,
              (case cmd of
                 None \<Rightarrow> []
               | Some c \<Rightarrow>
                   if enabled (telemetry llm1) \<and> c \<noteq> []
                   then sendTelemetry llm1 c (g_prompt opts) else [])))"

section \<open>Example configurations\<close>

text \<open>The options object \<open>{}\<close>: no optional field is set.\<close>

definition emptyOptions :: AdapterOptions where
  "emptyOptions = \<lparr>opt_apiVersion = None, opt_maxTokens = None, opt_temperature = None,
      opt_baseURL = None, opt_model = None, opt_telemetryEnabled = None,
      opt_telemetryEndpoint = None, opt_anonymousId = None, opt_sessionId = None\<rparr>"

text \<open>
  Two networks: one on which every request fails, one on which every request is answered
  with the completion \<open>ok\<close>; and the facade that the constructor builds for the
  provider \<open>anthropic\<close> with the options \<open>{}\<close> and the generated identifiers \<open>a1\<close>, \<open>s1\<close>.
\<close>

definition failingPost :: http where
  "failingPost req = Inl ''Network Error''"

definition okPost :: http where
  "okPost req = Inr \<lparr>thinking_content = None, completion = ''ok''\<rparr>"

definition exampleLLM :: UniversalLLM where
  "exampleLLM =
     \<lparr>adapter = ClaudeAdapter_new ''key'' emptyOptions,
      telemetry = \<lparr>enabled = True,
                   endpoint = Some ''https://telemetry.universal-developer.org/v1/events'',
                   anonymousId = Some ''a1'', sessionId = Some ''s1''\<rparr>,
      sessionCommands = Map.empty\<rparr>"

section \<open>Character classes\<close>

lemma isSpace_not_isWord: "isSpace c \<Longrightarrow> \<not> isWord c"
  by (auto simp: isSpace_def isWord_def)

lemma isSpace_not_eq: "isSpace c \<Longrightarrow> c \<noteq> CHR ''=''"
  by (auto simp: isSpace_def)

lemma isSpace_not_dash: "isSpace c \<Longrightarrow> c \<noteq> CHR ''-''"
  by (auto simp: isSpace_def)

lemma eq_not_isWord: "\<not> isWord (CHR ''='')"
  by (simp add: isWord_def)

lemma takeWhile_token:
  assumes "\<forall>c\<in>set n. P c" and "tail = [] \<or> \<not> P (hd tail)"
  shows "takeWhile P (n @ tail) = n" and "dropWhile P (n @ tail) = tail"
  using assms by (cases tail; simp add: takeWhile_append2 dropWhile_append2)+

section \<open>The registry after construction\<close>

lemma core_aliasMap: "aliasMap (ModelAdapter_new k key opts) = Map.empty"
  by (simp add: ModelAdapter_new_def registerCoreCommands_def registerCommand_def)

lemma core_commands:
  "commands (ModelAdapter_new k key opts) =
     [''think'' \<mapsto> \<lparr>name = ''think'', description = ''Activate extended reasoning pathways'',
            aliases = None, parameters = None, transform = TransformThink\<rparr>,
      ''fast'' \<mapsto> \<lparr>name = ''fast'', description = ''Optimize for low-latency responses'',
            aliases = None, parameters = None, transform = TransformFast\<rparr>,
      ''loop'' \<mapsto> \<lparr>name = ''loop'', description = ''Enable iterative refinement cycles'',
            aliases = None,
            parameters = Some [\<lparr>param_name = ''iterations'',
                                 param_description = ''Number of refinement iterations'',
                                 param_required = Some False,
                                 param_default = Some (Num 3)\<rparr>],
            transform = TransformLoop\<rparr>,
      ''reflect'' \<mapsto> \<lparr>name = ''reflect'', description = ''Trigger meta-analysis of outputs'',
            aliases = None, parameters = None, transform = TransformReflect\<rparr>,
      ''collapse'' \<mapsto> \<lparr>name = ''collapse'', description = ''Return to default behavior'',
            aliases = None, parameters = None, transform = TransformCollapse\<rparr>,
      ''fork'' \<mapsto> \<lparr>name = ''fork'', description = ''Generate multiple alternative responses'',
            aliases = None,
            parameters = Some [\<lparr>param_name = ''count'',
                                 param_description = ''Number of alternatives to generate'',
                                 param_required = Some False,
                                 param_default = Some (Num 2)\<rparr>],
            transform = TransformFork\<rparr>]"
  by (simp add: ModelAdapter_new_def registerCoreCommands_def registerCommand_def Let_def)

lemma core_dom: "dom (commands (ModelAdapter_new k key opts)) = {''think'', ''fast'', ''loop'', ''reflect'', ''collapse'', ''fork''}"
  unfolding core_commands
  by (simp only: dom_fun_upd dom_empty option.simps if_False insert_commute)

lemma createAdapter_cases:
  "createAdapter opts = Inr a \<Longrightarrow>
     a = ClaudeAdapter_new (o_apiKey opts) (adapterOptions opts)
     \<or> a = OpenAIAdapter_new (o_apiKey opts) (adapterOptions opts)
     \<or> a = QwenAdapter_new (o_apiKey opts) (adapterOptions opts)"
  by (simp add: createAdapter_def split: if_splits)

lemma subclass_registry:
  "commands (ClaudeAdapter_new key opts) = commands (ModelAdapter_new ClaudeAdapter key opts)"
  "aliasMap (ClaudeAdapter_new key opts) = aliasMap (ModelAdapter_new ClaudeAdapter key opts)"
  "commands (OpenAIAdapter_new key opts) = commands (ModelAdapter_new OpenAIAdapter key opts)"
  "aliasMap (OpenAIAdapter_new key opts) = aliasMap (ModelAdapter_new OpenAIAdapter key opts)"
  "commands (QwenAdapter_new key opts) = commands (ModelAdapter_new QwenAdapter key opts)"
  "aliasMap (QwenAdapter_new key opts) = aliasMap (ModelAdapter_new QwenAdapter key opts)"
  by (simp_all add: ClaudeAdapter_new_def OpenAIAdapter_new_def QwenAdapter_new_def)

lemma createAdapter_registry:
  assumes "createAdapter opts = Inr a"
  shows "commands a = commands (ModelAdapter_new k0 key0 opts0)" and "aliasMap a = Map.empty"
proof -
  from createAdapter_cases [OF assms]
  have "\<exists>k key o1. commands a = commands (ModelAdapter_new k key o1)
          \<and> aliasMap a = aliasMap (ModelAdapter_new k key o1)"
    using subclass_registry by metis
  then obtain k key o1 where c: "commands a = commands (ModelAdapter_new k key o1)"
    and al: "aliasMap a = aliasMap (ModelAdapter_new k key o1)" by blast
  show "commands a = commands (ModelAdapter_new k0 key0 opts0)"
    by (simp only: c core_commands)
  show "aliasMap a = Map.empty"
    by (simp only: al core_aliasMap)
qed

lemma matchCommand_bare:
  "tok \<noteq> [] \<Longrightarrow> \<forall>c\<in>set tok. isWord c \<Longrightarrow> matchCommand (CHR ''/'' # tok) = Some (CHR ''/'' # tok, tok, None)"
proof -
  assume t: "tok \<noteq> []" and w: "\<forall>c\<in>set tok. isWord c"
  from w have tw: "takeWhile isWord tok = tok" and dw: "dropWhile isWord tok = []"
    by simp_all
  from t show ?thesis
    by (simp add: matchCommand_def Let_def tw dw)
qed

lemma parseCommand_bare_core:
  assumes c: "commands a = commands (ModelAdapter_new k key o1)" and al: "aliasMap a = Map.empty"
    and t: "tok \<noteq> []" "\<forall>c\<in>set tok. isWord c" "commands (ModelAdapter_new k key o1) tok \<noteq> None"
  shows "command (parseCommand a (CHR ''/'' # tok)) = Some tok"
  using t by (simp add: parseCommand_def commandName_of_def al c matchCommand_bare)


lemma UniversalLLM_new_Inr:
  "createAdapter opts = Inr a \<Longrightarrow> \<exists>llm. UniversalLLM_new ids opts = Inr llm \<and> adapter llm = a"
  by (simp add: UniversalLLM_new_def)

lemma createAdapter_supported:
  "provider opts \<in> {''anthropic'', ''openai'', ''qwen''} \<Longrightarrow> \<exists>a. createAdapter opts = Inr a"
  by (auto simp: createAdapter_def)

text \<open>
  C3.  For every configuration with a supported provider, constructing the facade
  succeeds and the registry of its adapter holds exactly the six built-in commands
  \<open>think\<close>, \<open>fast\<close>, \<open>loop\<close>, \<open>reflect\<close>, \<open>collapse\<close> and \<open>fork\<close> (and no alias); each token
  is bound to a command of that name and is resolved to it by \<open>parseCommand\<close>; \<open>loop\<close>
  declares the parameter \<open>iterations\<close> with default 3, \<open>fork\<close> declares \<open>count\<close> with
  default 2, and the other four declare no parameters.
\<close>

theorem facade_registers_core_commands:
  assumes "provider opts \<in> {''anthropic'', ''openai'', ''qwen''}"
  shows "\<exists>llm. UniversalLLM_new ids opts = Inr llm
     \<and> dom (commands (adapter llm)) = {''think'', ''fast'', ''loop'', ''reflect'', ''collapse'', ''fork''}
     \<and> aliasMap (adapter llm) = Map.empty
     \<and> (\<forall>tok \<in> set [''think'', ''fast'', ''loop'', ''reflect'', ''collapse'', ''fork''].
           \<exists>cmd. commands (adapter llm) tok = Some cmd \<and> name cmd = tok
                 \<and> command (parseCommand (adapter llm) (CHR ''/'' # tok)) = Some tok)
     \<and> map_option parameters (commands (adapter llm) ''loop'') =
           Some (Some [\<lparr>param_name = ''iterations'',
                        param_description = ''Number of refinement iterations'',
                        param_required = Some False, param_default = Some (Num 3)\<rparr>])
     \<and> map_option parameters (commands (adapter llm) ''fork'') =
           Some (Some [\<lparr>param_name = ''count'',
                        param_description = ''Number of alternatives to generate'',
                        param_required = Some False, param_default = Some (Num 2)\<rparr>])
     \<and> (\<forall>tok \<in> set [''think'', ''fast'', ''reflect'', ''collapse''].
           map_option parameters (commands (adapter llm) tok) = Some None)"
proof -
  from createAdapter_supported [OF assms] obtain a where a: "createAdapter opts = Inr a" ..
  from UniversalLLM_new_Inr [OF a] obtain llm
    where llm: "UniversalLLM_new ids opts = Inr llm" and ad: "adapter llm = a" by blast
  have c: "commands a = commands (ModelAdapter_new ClaudeAdapter [] emptyOptions)"
    and al: "aliasMap a = Map.empty"
    using createAdapter_registry [OF a] by simp_all
  have d: "dom (commands a) = {''think'', ''fast'', ''loop'', ''reflect'', ''collapse'', ''fork''}"
    by (simp only: c core_dom)
  have pc: "command (parseCommand a (CHR ''/'' # tok)) = Some tok"
    if "tok \<noteq> []" "\<forall>c\<in>set tok. isWord c"
       "commands (ModelAdapter_new ClaudeAdapter [] emptyOptions) tok \<noteq> None" for tok
    using c al that by (rule parseCommand_bare_core)
  have r: "\<forall>tok \<in> set [''think'', ''fast'', ''loop'', ''reflect'', ''collapse'', ''fork''].
           \<exists>cmd. commands a tok = Some cmd \<and> name cmd = tok
                 \<and> command (parseCommand a (CHR ''/'' # tok)) = Some tok"
    by (simp add: pc isWord_def c core_commands)
  have l: "map_option parameters (commands a ''loop'') =
           Some (Some [\<lparr>param_name = ''iterations'',
                        param_description = ''Number of refinement iterations'',
                        param_required = Some False, param_default = Some (Num 3)\<rparr>])"
    by (simp add: c core_commands)
  have f: "map_option parameters (commands a ''fork'') =
           Some (Some [\<lparr>param_name = ''count'',
                        param_description = ''Number of alternatives to generate'',
                        param_required = Some False, param_default = Some (Num 2)\<rparr>])"
    by (simp add: c core_commands)
  have n: "\<forall>tok \<in> set [''think'', ''fast'', ''reflect'', ''collapse''].
           map_option parameters (commands a tok) = Some None"
    by (simp add: c core_commands)
  from llm d al r l f n show ?thesis
    unfolding ad [symmetric] by (intro exI [of _ llm] conjI)
qed

theorem facade_registers_core_commands_witness:
  "provider \<lparr>provider = ''anthropic'', o_apiKey = ''key'', adapterOptions = emptyOptions\<rparr>
      \<in> {''anthropic'', ''openai'', ''qwen''}
   \<and> (\<exists>llm. UniversalLLM_new (''a1'', ''s1'')
              \<lparr>provider = ''anthropic'', o_apiKey = ''key'', adapterOptions = emptyOptions\<rparr> = Inr llm
         \<and> dom (commands (adapter llm)) = {''think'', ''fast'', ''loop'', ''reflect'', ''collapse'', ''fork''}
         \<and> map_option parameters (commands (adapter llm) ''loop'') =
           Some (Some [\<lparr>param_name = ''iterations'',
                        param_description = ''Number of refinement iterations'',
                        param_required = Some False, param_default = Some (Num 3)\<rparr>]))"
proof -
  have h: "provider \<lparr>provider = ''anthropic'', o_apiKey = ''key'', adapterOptions = emptyOptions\<rparr>
      \<in> {''anthropic'', ''openai'', ''qwen''}" by simp
  from facade_registers_core_commands [OF h, of "(''a1'', ''s1'')"]
  obtain llm where "UniversalLLM_new (''a1'', ''s1'')
              \<lparr>provider = ''anthropic'', o_apiKey = ''key'', adapterOptions = emptyOptions\<rparr> = Inr llm"
    and "dom (commands (adapter llm)) = {''think'', ''fast'', ''loop'', ''reflect'', ''collapse'', ''fork''}"
    and "map_option parameters (commands (adapter llm) ''loop'') =
           Some (Some [\<lparr>param_name = ''iterations'',
                        param_description = ''Number of refinement iterations'',
                        param_required = Some False, param_default = Some (Num 3)\<rparr>])"
    by (elim exE conjE)
  with h show ?thesis
    by (intro conjI exI [of _ llm])
qed

lemma subclass_kind:
  "kind (ClaudeAdapter_new key opts) = ClaudeAdapter"
  "kind (OpenAIAdapter_new key opts) = OpenAIAdapter"
  "kind (QwenAdapter_new key opts) = QwenAdapter"
  by (simp_all add: ClaudeAdapter_new_def OpenAIAdapter_new_def QwenAdapter_new_def
        ModelAdapter_new_def registerCoreCommands_def registerCommand_def)

section \<open>Construction of the facade\<close>

text \<open>
  C8.  Constructing a facade with a provider identifier other than \<open>anthropic\<close>, \<open>openai\<close>
  and \<open>qwen\<close> raises the error \<open>Unsupported provider: ...\<close> (no facade exists, so no
  \<open>generate\<close> call can precede the error); with one of the three identifiers the
  construction does not raise and the facade holds the one adapter of that provider.
\<close>

theorem construction_unsupported_provider:
  "(provider opts \<notin> {''anthropic'', ''openai'', ''qwen''} \<longrightarrow>
      UniversalLLM_new ids opts = Inl (Error (''Unsupported provider: '' @ provider opts)))
   \<and> (provider opts \<in> {''anthropic'', ''openai'', ''qwen''} \<longrightarrow>
      (\<exists>llm. UniversalLLM_new ids opts = Inr llm
         \<and> adapter llm =
             (if provider opts = ''anthropic'' then ClaudeAdapter_new (o_apiKey opts) (adapterOptions opts)
              else if provider opts = ''openai'' then OpenAIAdapter_new (o_apiKey opts) (adapterOptions opts)
              else QwenAdapter_new (o_apiKey opts) (adapterOptions opts))
         \<and> sessionCommands llm = Map.empty))"
  by (simp add: UniversalLLM_new_def createAdapter_def)

theorem construction_unsupported_provider_witness:
  "provider \<lparr>provider = ''gemini'', o_apiKey = ''key'', adapterOptions = emptyOptions\<rparr>
      \<notin> {''anthropic'', ''openai'', ''qwen''}
   \<and> UniversalLLM_new (''a1'', ''s1'')
        \<lparr>provider = ''gemini'', o_apiKey = ''key'', adapterOptions = emptyOptions\<rparr>
      = Inl (Error ''Unsupported provider: gemini'')
   \<and> provider \<lparr>provider = ''qwen'', o_apiKey = ''key'', adapterOptions = emptyOptions\<rparr>
      \<in> {''anthropic'', ''openai'', ''qwen''}
   \<and> (\<exists>llm. UniversalLLM_new (''a1'', ''s1'')
        \<lparr>provider = ''qwen'', o_apiKey = ''key'', adapterOptions = emptyOptions\<rparr> = Inr llm
        \<and> adapter llm = QwenAdapter_new ''key'' emptyOptions)"
  using construction_unsupported_provider
      [of "\<lparr>provider = ''gemini'', o_apiKey = ''key'', adapterOptions = emptyOptions\<rparr>" "(''a1'', ''s1'')"]
    construction_unsupported_provider
      [of "\<lparr>provider = ''qwen'', o_apiKey = ''key'', adapterOptions = emptyOptions\<rparr>" "(''a1'', ''s1'')"]
  by simp (elim exE conjE, intro exI conjI, assumption+)

section \<open>Bounds on the model parameters of the transforms\<close>

text \<open>
  C6.  For every adapter (any kind, any configured \<open>temperature\<close> and \<open>maxTokens\<close>) the
  request produced by \<open>transformFast\<close> carries a \<open>max_tokens\<close> that is at most the
  adapter's \<open>maxTokens\<close>, and a temperature that is at most the ceiling 1 and at least
  the adapter's temperature capped at that ceiling; so whenever the configured
  temperature lies within the bound (is at most 1), the produced temperature is at
  least the configured one.
\<close>

theorem transformFast_bounds:
  "\<exists>mp cap t. modelParameters (transformFast a prompt opts) = Some mp
     \<and> mp_max_tokens mp = Some cap \<and> cap \<le> maxTokens a
     \<and> mp_temperature mp = Some t \<and> t \<le> 1 \<and> min 1 (temperature a) \<le> t
     \<and> (temperature a \<le> 1 \<longrightarrow> temperature a \<le> t)"
  by (cases "kind a")
     (simp_all add: transformFast_def Claude_transformFast_def OpenAI_transformFast_def
        Qwen_transformFast_def noModelParameters_def)

theorem transformFast_bounds_witness:
  "temperature (ClaudeAdapter_new ''key'' emptyOptions) \<le> 1
   \<and> (\<exists>mp cap t. modelParameters (transformFast (ClaudeAdapter_new ''key'' emptyOptions) ''hi''
                      \<lparr>to_systemPrompt = [], to_parameters = Map.empty, to_options = emptyOptions\<rparr>) = Some mp
     \<and> mp_max_tokens mp = Some cap \<and> cap \<le> maxTokens (ClaudeAdapter_new ''key'' emptyOptions)
     \<and> mp_temperature mp = Some t
     \<and> temperature (ClaudeAdapter_new ''key'' emptyOptions) \<le> t)"
proof -
  have h: "temperature (ClaudeAdapter_new ''key'' emptyOptions) \<le> 1"
    by (simp add: ClaudeAdapter_new_def emptyOptions_def orNum_def)
  from transformFast_bounds [of "ClaudeAdapter_new ''key'' emptyOptions" "''hi''"
      "\<lparr>to_systemPrompt = [], to_parameters = Map.empty, to_options = emptyOptions\<rparr>"]
  obtain mp cap t where "modelParameters (transformFast (ClaudeAdapter_new ''key'' emptyOptions) ''hi''
                      \<lparr>to_systemPrompt = [], to_parameters = Map.empty, to_options = emptyOptions\<rparr>) = Some mp"
     "mp_max_tokens mp = Some cap" "cap \<le> maxTokens (ClaudeAdapter_new ''key'' emptyOptions)"
     "mp_temperature mp = Some t"
     "temperature (ClaudeAdapter_new ''key'' emptyOptions) \<le> 1 \<longrightarrow>
        temperature (ClaudeAdapter_new ''key'' emptyOptions) \<le> t"
    by (elim exE conjE)
  with h show ?thesis
    by (intro conjI exI [of _ mp] exI [of _ cap] exI [of _ t]) simp_all
qed

lemma transformThink_modelParameters:
  "\<exists>mp. modelParameters (transformThink a prompt opts) = Some mp
     \<and> mp_temperature mp = Some (max (1/10) (temperature a - 2/10))"
  by (cases "kind a")
     (simp_all add: transformThink_def Claude_transformThink_def OpenAI_transformThink_def
        Qwen_transformThink_def noModelParameters_def)

text \<open>
  C7.  For every adapter (any kind, any configured \<open>temperature\<close>) the request produced
  by \<open>transformThink\<close> carries a temperature that is at least the floor 0.1 and at most
  the adapter's temperature raised to that floor; so whenever the configured temperature
  lies within the bound (is at least 0.1), the produced temperature is at most the
  configured one.
\<close>

theorem transformThink_bounds:
  "\<exists>mp t. modelParameters (transformThink a prompt opts) = Some mp
     \<and> mp_temperature mp = Some t \<and> 1/10 \<le> t \<and> t \<le> max (1/10) (temperature a)
     \<and> (1/10 \<le> temperature a \<longrightarrow> t \<le> temperature a)"
proof -
  from transformThink_modelParameters obtain mp
    where m: "modelParameters (transformThink a prompt opts) = Some mp"
      and t: "mp_temperature mp = Some (max (1/10) (temperature a - 2/10))"
    by blast
  have "1/10 \<le> max (1/10) (temperature a - 2/10)"
    and "max (1/10) (temperature a - 2/10) \<le> max (1/10) (temperature a)"
    and "1/10 \<le> temperature a \<longrightarrow> max (1/10) (temperature a - 2/10) \<le> temperature a"
    by (simp_all add: max_def)
  with m t show ?thesis
    by (intro exI [of _ mp] exI [of _ "max (1/10) (temperature a - 2/10)"] conjI)
qed

theorem transformThink_bounds_witness:
  "1/10 \<le> temperature (OpenAIAdapter_new ''key'' emptyOptions)
   \<and> (\<exists>mp t. modelParameters (transformThink (OpenAIAdapter_new ''key'' emptyOptions) ''hi''
                      \<lparr>to_systemPrompt = [], to_parameters = Map.empty, to_options = emptyOptions\<rparr>) = Some mp
     \<and> mp_temperature mp = Some t
     \<and> t \<le> temperature (OpenAIAdapter_new ''key'' emptyOptions))"
proof -
  have h: "1/10 \<le> temperature (OpenAIAdapter_new ''key'' emptyOptions)"
    by (simp add: OpenAIAdapter_new_def emptyOptions_def orNum_def)
  from transformThink_bounds [of "OpenAIAdapter_new ''key'' emptyOptions" "''hi''"
      "\<lparr>to_systemPrompt = [], to_parameters = Map.empty, to_options = emptyOptions\<rparr>"]
  obtain mp t where "modelParameters (transformThink (OpenAIAdapter_new ''key'' emptyOptions) ''hi''
                      \<lparr>to_systemPrompt = [], to_parameters = Map.empty, to_options = emptyOptions\<rparr>) = Some mp"
     "mp_temperature mp = Some t"
     "1/10 \<le> temperature (OpenAIAdapter_new ''key'' emptyOptions) \<longrightarrow>
        t \<le> temperature (OpenAIAdapter_new ''key'' emptyOptions)"
    by (elim exE conjE)
  with h show ?thesis
    by (intro conjI exI [of _ mp] exI [of _ t]) simp_all
qed

section \<open>Parsing a command line\<close>

lemma matchCommand_think_hello_world:
  "matchCommand ''/think hello world'' =
     Some (''/think hello world'', ''think'', Some ''hello world'')"
  by (simp add: matchCommand_def isWord_def isSpace_def notNewline_def Let_def)

text \<open>
  A prompt made of \<open>/\<close>, a command name, one white-space code unit and text without a
  line feed is matched in full by \<open>commandRegex\<close>: when the name resolves, removing the
  full match leaves the empty clean prompt.
\<close>

lemma replace_self: "replace p p [] = []"
  by (cases p) simp_all

lemma matchCommand_line:
  assumes tok: "tok \<noteq> []" "\<forall>c\<in>set tok. isWord c"
    and w: "isSpace w"
    and nl: "CHR 0x0A \<notin> set txt"
  shows "matchCommand (CHR ''/'' # tok @ w # txt) =
           Some (CHR ''/'' # tok @ w # txt, tok, Some (dropWhile isSpace txt))"
proof -
  from w have nw: "w # txt = [] \<or> \<not> isWord (hd (w # txt))"
    by (simp add: isSpace_not_isWord)
  have tw: "takeWhile isWord (tok @ w # txt) = tok"
    and dw: "dropWhile isWord (tok @ w # txt) = w # txt"
    using tok(2) nw by (rule takeWhile_token)+
  have "\<forall>c\<in>set (dropWhile isSpace txt). notNewline c"
    using nl by (auto simp: notNewline_def dest: set_dropWhileD)
  then have r: "takeWhile notNewline (dropWhile isSpace txt) = dropWhile isSpace txt"
    by simp
  from tok(1) w show ?thesis
    by (simp add: matchCommand_def Let_def tw dw r)
qed

lemma parseCommand_line:
  assumes tok: "tok \<noteq> []" "\<forall>c\<in>set tok. isWord c"
    and w: "isSpace w"
    and nl: "CHR 0x0A \<notin> set txt"
    and reg: "commands a (commandName_of a tok) \<noteq> None"
  shows "command (parseCommand a (CHR ''/'' # tok @ w # txt)) = Some (commandName_of a tok)"
    and "cleanPrompt (parseCommand a (CHR ''/'' # tok @ w # txt)) = []"
  using reg
  by (simp_all add: parseCommand_def matchCommand_line [OF tok w nl] Let_def
       replace_self trim_def del: replace.simps)

text \<open>
  C1.  The claim: for a single-line prompt made of a registered command token, white
  space and free text, \<open>parseCommand\<close> resolves the command and returns as clean prompt
  the text with the command token removed and trimmed; \<open>/think hello world\<close> gives
  command \<open>think\<close>, clean prompt \<open>hello world\<close> and an empty parameter mapping.
  The code at this input: the full match of \<open>commandRegex\<close> covers the rest of the line
  as well, and \<open>prompt.replace(fullMatch, '')\<close> removes all of it, so the clean prompt
  is empty for every adapter.  The command and the parameter mapping are as claimed.
\<close>

theorem parseCommand_think_hello_world:
  "parseCommand (ModelAdapter_new k key opts) ''/think hello world'' =
     \<lparr>command = Some ''think'', cleanPrompt = [], parameters_of = Map.empty\<rparr>"
  by (simp add: parseCommand_def matchCommand_think_hello_world commandName_of_def
        core_aliasMap core_commands trim_def parseParameters_def)

lemma commandMatch_None: "commandMatch prompt = None \<Longrightarrow> matchCommand prompt = None"
  by (cases prompt) (auto simp: commandMatch_def matchCommand_def split: if_splits)

lemma commandMatch_Some:
  "commandMatch prompt = Some tok \<Longrightarrow> \<exists>full rest. matchCommand prompt = Some (full, tok, rest)"
  by (cases prompt) (auto simp: commandMatch_def matchCommand_def Let_def split: if_splits)

lemma parseCommand_no_command:
  assumes "commandMatch prompt = None
     \<or> (\<exists>tok. commandMatch prompt = Some tok \<and> commands a (commandName_of a tok) = None)"
  shows "parseCommand a prompt = \<lparr>command = None, cleanPrompt = prompt, parameters_of = Map.empty\<rparr>"
  using assms
proof
  assume "commandMatch prompt = None"
  then have "matchCommand prompt = None" by (rule commandMatch_None)
  then show ?thesis by (simp add: parseCommand_def)
next
  assume "\<exists>tok. commandMatch prompt = Some tok \<and> commands a (commandName_of a tok) = None"
  then obtain tok where t: "commandMatch prompt = Some tok"
    and n: "commands a (commandName_of a tok) = None" by blast
  from commandMatch_Some [OF t] obtain full rest
    where "matchCommand prompt = Some (full, tok, rest)" by blast
  with n show ?thesis by (simp add: parseCommand_def)
qed

lemma ModelAdapter_generate_no_command:
  assumes "commandMatch prompt = None
     \<or> (\<exists>tok. commandMatch prompt = Some tok \<and> commands a (commandName_of a tok) = None)"
  shows "transformPrompt a \<lparr>g_prompt = prompt, g_systemPrompt = sp\<rparr> =
         Inr (Some \<lparr>systemPrompt = Some (case sp of None \<Rightarrow> [] | Some s \<Rightarrow> s),
                    userPrompt = prompt, modelParameters = None\<rparr>)"
    and "ModelAdapter_generate post a \<lparr>g_prompt = prompt, g_systemPrompt = sp\<rparr> =
         executePrompt post a
           (Some \<lparr>systemPrompt = Some (case sp of None \<Rightarrow> [] | Some s \<Rightarrow> s),
                  userPrompt = prompt, modelParameters = None\<rparr>)"
proof -
  have p: "parseCommand a prompt = \<lparr>command = None, cleanPrompt = prompt, parameters_of = Map.empty\<rparr>"
    using assms by (rule parseCommand_no_command)
  show t: "transformPrompt a \<lparr>g_prompt = prompt, g_systemPrompt = sp\<rparr> =
         Inr (Some \<lparr>systemPrompt = Some (case sp of None \<Rightarrow> [] | Some s \<Rightarrow> s),
                    userPrompt = prompt, modelParameters = None\<rparr>)"
    by (simp add: transformPrompt_def p Let_def)
  show "ModelAdapter_generate post a \<lparr>g_prompt = prompt, g_systemPrompt = sp\<rparr> =
         executePrompt post a
           (Some \<lparr>systemPrompt = Some (case sp of None \<Rightarrow> [] | Some s \<Rightarrow> s),
                  userPrompt = prompt, modelParameters = None\<rparr>)"
    by (simp add: ModelAdapter_generate_def t)
qed

text \<open>
  C2.  When the prompt does not begin with \<open>/\<close> and a command-name token, or when the
  leading token does not resolve in the registry (neither as a name nor through the
  alias table), \<open>parseCommand\<close> reports no command, returns the input unchanged as the
  clean prompt with an empty parameter mapping, and \<open>generate\<close> hands \<open>executePrompt\<close> the
  unchanged prompt as the user prompt, with the caller's system prompt and no model
  parameters.
\<close>

theorem no_command_passthrough:
  assumes "commandMatch prompt = None
     \<or> (\<exists>tok. commandMatch prompt = Some tok \<and> commands a (commandName_of a tok) = None)"
  shows "parseCommand a prompt = \<lparr>command = None, cleanPrompt = prompt, parameters_of = Map.empty\<rparr>
     \<and> transformPrompt a \<lparr>g_prompt = prompt, g_systemPrompt = sp\<rparr> =
         Inr (Some \<lparr>systemPrompt = Some (case sp of None \<Rightarrow> [] | Some s \<Rightarrow> s),
                    userPrompt = prompt, modelParameters = None\<rparr>)
     \<and> ModelAdapter_generate post a \<lparr>g_prompt = prompt, g_systemPrompt = sp\<rparr> =
         executePrompt post a
           (Some \<lparr>systemPrompt = Some (case sp of None \<Rightarrow> [] | Some s \<Rightarrow> s),
                  userPrompt = prompt, modelParameters = None\<rparr>)"
  using parseCommand_no_command [OF assms] ModelAdapter_generate_no_command [OF assms]
  by (intro conjI)

lemma commandMatch_unknowncmd: "commandMatch ''/unknowncmd hi'' = Some ''unknowncmd''"
  by (simp add: commandMatch_def isWord_def)

theorem no_command_passthrough_witness:
  "(commandMatch ''/unknowncmd hi'' = None
     \<or> (\<exists>tok. commandMatch ''/unknowncmd hi'' = Some tok
           \<and> commands (ClaudeAdapter_new ''key'' emptyOptions)
                (commandName_of (ClaudeAdapter_new ''key'' emptyOptions) tok) = None))
   \<and> parseCommand (ClaudeAdapter_new ''key'' emptyOptions) ''/unknowncmd hi'' =
       \<lparr>command = None, cleanPrompt = ''/unknowncmd hi'', parameters_of = Map.empty\<rparr>
   \<and> (commandMatch ''hello /think'' = None
     \<or> (\<exists>tok. commandMatch ''hello /think'' = Some tok
           \<and> commands (ClaudeAdapter_new ''key'' emptyOptions)
                (commandName_of (ClaudeAdapter_new ''key'' emptyOptions) tok) = None))
   \<and> parseCommand (ClaudeAdapter_new ''key'' emptyOptions) ''hello /think'' =
       \<lparr>command = None, cleanPrompt = ''hello /think'', parameters_of = Map.empty\<rparr>"
proof -
  have n: "commands (ClaudeAdapter_new ''key'' emptyOptions)
             (commandName_of (ClaudeAdapter_new ''key'' emptyOptions) ''unknowncmd'') = None"
    by (simp add: commandName_of_def subclass_registry core_aliasMap core_commands)
  have h1: "commandMatch ''/unknowncmd hi'' = None
     \<or> (\<exists>tok. commandMatch ''/unknowncmd hi'' = Some tok
           \<and> commands (ClaudeAdapter_new ''key'' emptyOptions)
                (commandName_of (ClaudeAdapter_new ''key'' emptyOptions) tok) = None)"
    using n by (simp add: commandMatch_unknowncmd)
  have h2: "commandMatch ''hello /think'' = None
     \<or> (\<exists>tok. commandMatch ''hello /think'' = Some tok
           \<and> commands (ClaudeAdapter_new ''key'' emptyOptions)
                (commandName_of (ClaudeAdapter_new ''key'' emptyOptions) tok) = None)"
    by (simp add: commandMatch_def)
  from no_command_passthrough [OF h1, of None "\<lambda>r. Inl []"]
       no_command_passthrough [OF h2, of None "\<lambda>r. Inl []"] h1 h2
  show ?thesis by (intro conjI) (erule conjunct1 | assumption)+
qed

section \<open>The facade's generate\<close>

lemma exampleLLM_constructed:
  "UniversalLLM_new (''a1'', ''s1'')
     \<lparr>provider = ''anthropic'', o_apiKey = ''key'', adapterOptions = emptyOptions\<rparr> = Inr exampleLLM"
  by (simp add: UniversalLLM_new_def createAdapter_def exampleLLM_def emptyOptions_def orStr_def)

lemma commandMatch_nonempty: "commandMatch prompt = Some c \<Longrightarrow> c \<noteq> []"
  by (cases prompt) (auto simp: commandMatch_def split: if_splits)

lemma adapter_trackCommandUsage: "adapter (trackCommandUsage llm c) = adapter llm"
  by (simp add: trackCommandUsage_def Let_def)

lemma telemetry_trackCommandUsage: "telemetry (trackCommandUsage llm c) = telemetry llm"
  by (simp add: trackCommandUsage_def Let_def)

lemma stats_trackCommandUsage:
  "getCommandUsageStats (trackCommandUsage llm c) c =
     Some ((case getCommandUsageStats llm c of None \<Rightarrow> 0 | Some n \<Rightarrow> n) + 1)"
  by (simp add: trackCommandUsage_def getCommandUsageStats_def Let_def)

lemma generate_state:
  "commandMatch (g_prompt input) = Some c \<Longrightarrow>
     fst (snd (UniversalLLM_generate post llm input)) = trackCommandUsage llm c"
  by (frule commandMatch_nonempty)
     (simp add: UniversalLLM_generate_def Let_def split: sum.splits)

lemma executePrompt_error_tagged:
  "executePrompt post a transformed = Inl err \<Longrightarrow>
     \<exists>msg. err = Error (''Failed to execute '' @ providerLabel (kind a) @ '' prompt: '' @ msg)"
  by (auto simp: executePrompt_def executeError_def split: option.splits sum.splits)

text \<open>
  C9.  When the prompt begins with a command token and the adapter's \<open>executePrompt\<close>
  fails on the transformed prompt, \<open>generate\<close> raises that single error, whose message
  is tagged with the provider (\<open>Failed to execute Claude/OpenAI/Qwen prompt: ...\<close>), and
  the usage counter of the token is one more than before the call: the facade is in the
  state it is in after a call with any other network, a successful one included.
\<close>

theorem generate_failure_still_counts:
  assumes m: "commandMatch (g_prompt input) = Some c"
    and t: "transformPrompt (adapter llm) input = Inr transformed"
    and e: "executePrompt post (adapter llm) transformed = Inl err"
  shows "UniversalLLM_generate post llm input = (Inl err, trackCommandUsage llm c, [])
     \<and> (\<exists>msg. err = Error (''Failed to execute '' @ providerLabel (kind (adapter llm))
                            @ '' prompt: '' @ msg))
     \<and> getCommandUsageStats (trackCommandUsage llm c) c =
         Some ((case getCommandUsageStats llm c of None \<Rightarrow> 0 | Some n \<Rightarrow> n) + 1)
     \<and> fst (snd (UniversalLLM_generate post' llm input)) = trackCommandUsage llm c"
proof -
  from m have ne: "c \<noteq> []" by (rule commandMatch_nonempty)
  from t e have g: "ModelAdapter_generate post (adapter llm) input = Inl err"
    by (simp add: ModelAdapter_generate_def)
  from m ne g have 1: "UniversalLLM_generate post llm input = (Inl err, trackCommandUsage llm c, [])"
    by (simp add: UniversalLLM_generate_def Let_def adapter_trackCommandUsage)
  from e have 2: "\<exists>msg. err = Error (''Failed to execute '' @ providerLabel (kind (adapter llm))
                            @ '' prompt: '' @ msg)"
    by (rule executePrompt_error_tagged)
  from m have 4: "fst (snd (UniversalLLM_generate post' llm input)) = trackCommandUsage llm c"
    by (rule generate_state)
  from 1 2 stats_trackCommandUsage 4 show ?thesis by (intro conjI)
qed

lemma commandMatch_think_hi: "commandMatch ''/think hi'' = Some ''think''"
  by (simp add: commandMatch_def isWord_def)

lemma matchCommand_think_hi: "matchCommand ''/think hi'' = Some (''/think hi'', ''think'', Some ''hi'')"
  by (simp add: matchCommand_def isWord_def isSpace_def notNewline_def Let_def)

lemma parseCommand_think_hi:
  "parseCommand (ClaudeAdapter_new ''key'' emptyOptions) ''/think hi'' =
     \<lparr>command = Some ''think'', cleanPrompt = [], parameters_of = Map.empty\<rparr>"
  by (simp add: parseCommand_def matchCommand_think_hi commandName_of_def subclass_registry
        core_aliasMap core_commands trim_def parseParameters_def)

lemma transformPrompt_think_hi:
  "transformPrompt (adapter exampleLLM) \<lparr>g_prompt = ''/think hi'', g_systemPrompt = None\<rparr> =
     Inr (Some (transformThink (ClaudeAdapter_new ''key'' emptyOptions) []
                  \<lparr>to_systemPrompt = [], to_parameters = Map.empty,
                   to_options = options (ClaudeAdapter_new ''key'' emptyOptions)\<rparr>))"
  by (simp add: transformPrompt_def exampleLLM_def parseCommand_think_hi Let_def
        subclass_registry core_commands)

theorem generate_failure_still_counts_witness:
  "commandMatch (g_prompt \<lparr>g_prompt = ''/think hi'', g_systemPrompt = None\<rparr>) = Some ''think''
   \<and> (\<exists>transformed. transformPrompt (adapter exampleLLM)
          \<lparr>g_prompt = ''/think hi'', g_systemPrompt = None\<rparr> = Inr transformed
        \<and> executePrompt failingPost (adapter exampleLLM) transformed =
            Inl (Error ''Failed to execute Claude prompt: Network Error''))
   \<and> fst (UniversalLLM_generate failingPost exampleLLM
            \<lparr>g_prompt = ''/think hi'', g_systemPrompt = None\<rparr>) =
        Inl (Error ''Failed to execute Claude prompt: Network Error'')
   \<and> getCommandUsageStats
        (fst (snd (UniversalLLM_generate failingPost exampleLLM
                     \<lparr>g_prompt = ''/think hi'', g_systemPrompt = None\<rparr>))) ''think'' = Some 1"
proof -
  let ?input = "\<lparr>g_prompt = ''/think hi'', g_systemPrompt = None\<rparr>"
  let ?t = "Some (transformThink (ClaudeAdapter_new ''key'' emptyOptions) []
                  \<lparr>to_systemPrompt = [], to_parameters = Map.empty,
                   to_options = options (ClaudeAdapter_new ''key'' emptyOptions)\<rparr>)"
  let ?err = "Error ''Failed to execute Claude prompt: Network Error''"
  have h1: "commandMatch (g_prompt ?input) = Some ''think''"
    by (simp add: commandMatch_think_hi)
  have h2: "transformPrompt (adapter exampleLLM) ?input = Inr ?t"
    by (rule transformPrompt_think_hi)
  have h3: "executePrompt failingPost (adapter exampleLLM) ?t = Inl ?err"
    by (simp add: executePrompt_def failingPost_def executeError_def providerLabel_def
          exampleLLM_def subclass_kind)
  have s0: "getCommandUsageStats exampleLLM ''think'' = None"
    by (simp add: getCommandUsageStats_def exampleLLM_def)
  note r = generate_failure_still_counts [OF h1 h2 h3, of failingPost]
  from r have g: "UniversalLLM_generate failingPost exampleLLM ?input =
            (Inl ?err, trackCommandUsage exampleLLM ''think'', [])"
    by (elim conjE)
  from r have c: "getCommandUsageStats (trackCommandUsage exampleLLM ''think'') ''think'' =
         Some ((case getCommandUsageStats exampleLLM ''think'' of None \<Rightarrow> 0 | Some n \<Rightarrow> n) + 1)"
    by (elim conjE)
  from c s0 have c1: "getCommandUsageStats (trackCommandUsage exampleLLM ''think'') ''think'' = Some 1"
    by simp
  from h2 h3 have ex: "\<exists>transformed. transformPrompt (adapter exampleLLM) ?input = Inr transformed
        \<and> executePrompt failingPost (adapter exampleLLM) transformed = Inl ?err"
    by (intro exI [of _ ?t] conjI)
  from h1 ex g c1 show ?thesis by simp
qed

lemma commandMatch_foo_hi: "commandMatch ''/foo hi'' = Some ''foo''"
  by (simp add: commandMatch_def isWord_def)

lemma foo_unregistered:
  "commands (adapter exampleLLM) (commandName_of (adapter exampleLLM) ''foo'') = None"
  by (simp add: exampleLLM_def commandName_of_def subclass_registry core_aliasMap core_commands)

lemma generate_foo_failing:
  "UniversalLLM_generate failingPost exampleLLM \<lparr>g_prompt = ''/foo hi'', g_systemPrompt = None\<rparr> =
     (Inl (Error ''Failed to execute Claude prompt: Network Error''),
      trackCommandUsage exampleLLM ''foo'', [])"
proof -
  let ?input = "\<lparr>g_prompt = ''/foo hi'', g_systemPrompt = None\<rparr>"
  have h: "commandMatch ''/foo hi'' = None
     \<or> (\<exists>tok. commandMatch ''/foo hi'' = Some tok
           \<and> commands (adapter exampleLLM) (commandName_of (adapter exampleLLM) tok) = None)"
    using foo_unregistered by (simp add: commandMatch_foo_hi)
  have "ModelAdapter_generate failingPost (adapter exampleLLM) ?input =
      executePrompt failingPost (adapter exampleLLM)
           (Some \<lparr>systemPrompt = Some [], userPrompt = ''/foo hi'', modelParameters = None\<rparr>)"
    using ModelAdapter_generate_no_command(2) [OF h, of failingPost None] by simp
  also have "\<dots> = Inl (Error ''Failed to execute Claude prompt: Network Error'')"
    by (simp add: executePrompt_def failingPost_def executeError_def providerLabel_def
          exampleLLM_def subclass_kind)
  finally show ?thesis
    by (simp add: UniversalLLM_generate_def Let_def commandMatch_foo_hi adapter_trackCommandUsage)
qed

text \<open>
  C10.  The claim: for every \<open>generate\<close> call whose prompt begins with \<open>/\<close> and word
  characters, the facade counts the token and, when telemetry is enabled, emits a
  telemetry event, registered or not.  The telemetry half fails when the adapter's call
  fails: the facade built for \<open>anthropic\<close> has telemetry enabled, the prompt \<open>/foo hi\<close>
  begins with the token \<open>foo\<close>, and on a failing network no event is emitted.
\<close>

theorem generate_failing_emits_no_telemetry:
  "enabled (telemetry exampleLLM)
   \<and> commandMatch (g_prompt \<lparr>g_prompt = ''/foo hi'', g_systemPrompt = None\<rparr>) = Some ''foo''
   \<and> snd (snd (UniversalLLM_generate failingPost exampleLLM
                  \<lparr>g_prompt = ''/foo hi'', g_systemPrompt = None\<rparr>)) = []"
  by (simp add: generate_foo_failing commandMatch_foo_hi) (simp add: exampleLLM_def)

lemma generate_foo_ok:
  "ModelAdapter_generate okPost (adapter exampleLLM) \<lparr>g_prompt = ''/foo hi'', g_systemPrompt = None\<rparr>
     = Inr ''ok''"
proof -
  let ?input = "\<lparr>g_prompt = ''/foo hi'', g_systemPrompt = None\<rparr>"
  have h: "commandMatch ''/foo hi'' = None
     \<or> (\<exists>tok. commandMatch ''/foo hi'' = Some tok
           \<and> commands (adapter exampleLLM) (commandName_of (adapter exampleLLM) tok) = None)"
    using foo_unregistered by (simp add: commandMatch_foo_hi)
  have "ModelAdapter_generate okPost (adapter exampleLLM) ?input =
      executePrompt okPost (adapter exampleLLM)
           (Some \<lparr>systemPrompt = Some [], userPrompt = ''/foo hi'', modelParameters = None\<rparr>)"
    using ModelAdapter_generate_no_command(2) [OF h, of okPost None] by simp
  also have "\<dots> = Inr ''ok''"
    by (simp add: executePrompt_def okPost_def readCompletion_def exampleLLM_def subclass_kind)
  finally show ?thesis .
qed

text \<open>
  C10, amended.  For every \<open>generate\<close> call whose prompt begins with \<open>/\<close> and word
  characters, the facade increments its usage counter under that token, registered or
  not, whatever the outcome of the call; when telemetry is enabled (with its endpoint
  set, as the constructor leaves it) and the adapter's call returns a response, exactly
  one telemetry event for that token is emitted; when the adapter's call fails, none is.
\<close>

theorem generate_counts_every_token:
  assumes m: "commandMatch (g_prompt input) = Some tok"
  shows "getCommandUsageStats (fst (snd (UniversalLLM_generate post llm input))) tok =
           Some ((case getCommandUsageStats llm tok of None \<Rightarrow> 0 | Some n \<Rightarrow> n) + 1)
     \<and> (\<forall>response ep.
           ModelAdapter_generate post (adapter llm) input = Inr response
           \<and> enabled (telemetry llm) \<and> endpoint (telemetry llm) = Some ep \<and> ep \<noteq> [] \<longrightarrow>
           snd (snd (UniversalLLM_generate post llm input)) =
             [\<lparr>ev_endpoint = ep, ev_event = ''symbolic_command_used'', ev_command = tok,
               ev_provider = providerName (kind (adapter llm)),
               ev_prompt_length = length (g_prompt input),
               ev_anonymousId = anonymousId (telemetry llm),
               ev_sessionId = sessionId (telemetry llm)\<rparr>])
     \<and> (\<forall>e. ModelAdapter_generate post (adapter llm) input = Inl e \<longrightarrow>
           snd (snd (UniversalLLM_generate post llm input)) = [])"
proof -
  from m have ne: "tok \<noteq> []" by (rule commandMatch_nonempty)
  have 1: "getCommandUsageStats (fst (snd (UniversalLLM_generate post llm input))) tok =
           Some ((case getCommandUsageStats llm tok of None \<Rightarrow> 0 | Some n \<Rightarrow> n) + 1)"
    by (simp only: generate_state [OF m] stats_trackCommandUsage)
  have 2: "snd (snd (UniversalLLM_generate post llm input)) =
             [\<lparr>ev_endpoint = ep, ev_event = ''symbolic_command_used'', ev_command = tok,
               ev_provider = providerName (kind (adapter llm)),
               ev_prompt_length = length (g_prompt input),
               ev_anonymousId = anonymousId (telemetry llm),
               ev_sessionId = sessionId (telemetry llm)\<rparr>]"
    if "ModelAdapter_generate post (adapter llm) input = Inr response"
      and "enabled (telemetry llm)" and "endpoint (telemetry llm) = Some ep" and "ep \<noteq> []"
    for response ep
    using that m ne
    by (simp add: UniversalLLM_generate_def Let_def adapter_trackCommandUsage
          telemetry_trackCommandUsage sendTelemetry_def)
  have 3: "snd (snd (UniversalLLM_generate post llm input)) = []"
    if "ModelAdapter_generate post (adapter llm) input = Inl e" for e
    using that m ne
    by (simp add: UniversalLLM_generate_def Let_def adapter_trackCommandUsage)
  show ?thesis
  proof (intro conjI allI impI)
    show "getCommandUsageStats (fst (snd (UniversalLLM_generate post llm input))) tok =
           Some ((case getCommandUsageStats llm tok of None \<Rightarrow> 0 | Some n \<Rightarrow> n) + 1)"
      by (rule 1)
  next
    fix response ep
    assume "ModelAdapter_generate post (adapter llm) input = Inr response
           \<and> enabled (telemetry llm) \<and> endpoint (telemetry llm) = Some ep \<and> ep \<noteq> []"
    then show "snd (snd (UniversalLLM_generate post llm input)) =
             [\<lparr>ev_endpoint = ep, ev_event = ''symbolic_command_used'', ev_command = tok,
               ev_provider = providerName (kind (adapter llm)),
               ev_prompt_length = length (g_prompt input),
               ev_anonymousId = anonymousId (telemetry llm),
               ev_sessionId = sessionId (telemetry llm)\<rparr>]"
      by (elim conjE) (rule 2)
  next
    fix e
    assume "ModelAdapter_generate post (adapter llm) input = Inl e"
    then show "snd (snd (UniversalLLM_generate post llm input)) = []"
      by (rule 3)
  qed
qed

theorem generate_counts_every_token_witness:
  "commandMatch (g_prompt \<lparr>g_prompt = ''/foo hi'', g_systemPrompt = None\<rparr>) = Some ''foo''
   \<and> commands (adapter exampleLLM) (commandName_of (adapter exampleLLM) ''foo'') = None
   \<and> ModelAdapter_generate okPost (adapter exampleLLM)
        \<lparr>g_prompt = ''/foo hi'', g_systemPrompt = None\<rparr> = Inr ''ok''
   \<and> enabled (telemetry exampleLLM)
   \<and> endpoint (telemetry exampleLLM) = Some ''https://telemetry.universal-developer.org/v1/events''
   \<and> getCommandUsageStats
        (fst (snd (UniversalLLM_generate okPost exampleLLM
                     \<lparr>g_prompt = ''/foo hi'', g_systemPrompt = None\<rparr>))) ''foo'' = Some 1
   \<and> snd (snd (UniversalLLM_generate okPost exampleLLM
                  \<lparr>g_prompt = ''/foo hi'', g_systemPrompt = None\<rparr>)) =
        [\<lparr>ev_endpoint = ''https://telemetry.universal-developer.org/v1/events'',
          ev_event = ''symbolic_command_used'', ev_command = ''foo'',
          ev_provider = ''claude'', ev_prompt_length = 7,
          ev_anonymousId = Some ''a1'', ev_sessionId = Some ''s1''\<rparr>]"
proof -
  let ?input = "\<lparr>g_prompt = ''/foo hi'', g_systemPrompt = None\<rparr>"
  let ?ep = "''https://telemetry.universal-developer.org/v1/events''"
  have h1: "commandMatch (g_prompt ?input) = Some ''foo''"
    by (simp add: commandMatch_foo_hi)
  have en: "enabled (telemetry exampleLLM)" and ep: "endpoint (telemetry exampleLLM) = Some ?ep"
    and ids: "anonymousId (telemetry exampleLLM) = Some ''a1''" "sessionId (telemetry exampleLLM) = Some ''s1''"
    and pn: "providerName (kind (adapter exampleLLM)) = ''claude''"
    and s0: "getCommandUsageStats exampleLLM ''foo'' = None"
    by (simp_all add: exampleLLM_def subclass_kind providerName_def getCommandUsageStats_def)
  note r = generate_counts_every_token [OF h1, of okPost exampleLLM]
  from r have c: "getCommandUsageStats (fst (snd (UniversalLLM_generate okPost exampleLLM ?input))) ''foo'' =
           Some ((case getCommandUsageStats exampleLLM ''foo'' of None \<Rightarrow> 0 | Some n \<Rightarrow> n) + 1)"
    by (rule conjunct1)
  from r have "ModelAdapter_generate okPost (adapter exampleLLM) ?input = Inr ''ok''
           \<and> enabled (telemetry exampleLLM) \<and> endpoint (telemetry exampleLLM) = Some ?ep \<and> ?ep \<noteq> [] \<longrightarrow>
           snd (snd (UniversalLLM_generate okPost exampleLLM ?input)) =
             [\<lparr>ev_endpoint = ?ep, ev_event = ''symbolic_command_used'', ev_command = ''foo'',
               ev_provider = providerName (kind (adapter exampleLLM)),
               ev_prompt_length = length (g_prompt ?input),
               ev_anonymousId = anonymousId (telemetry exampleLLM),
               ev_sessionId = sessionId (telemetry exampleLLM)\<rparr>]"
    by (elim conjE allE)
  with generate_foo_ok en ep
  have ev: "snd (snd (UniversalLLM_generate okPost exampleLLM ?input)) =
             [\<lparr>ev_endpoint = ?ep, ev_event = ''symbolic_command_used'', ev_command = ''foo'',
               ev_provider = ''claude'', ev_prompt_length = 7,
               ev_anonymousId = Some ''a1'', ev_sessionId = Some ''s1''\<rparr>]"
    by (simp add: ids pn)
  from c s0 have c1: "getCommandUsageStats (fst (snd (UniversalLLM_generate okPost exampleLLM ?input))) ''foo'' = Some 1"
    by simp
  from h1 foo_unregistered generate_foo_ok en ep c1 ev show ?thesis by (intro conjI)
qed

section \<open>The parameter loop\<close>

lemma matchParamAt_value_token:
  assumes n: "n \<noteq> []" "\<forall>c\<in>set n. isWord c"
    and v: "v \<noteq> []" "\<forall>c\<in>set v. \<not> isSpace c"
    and t: "tail = [] \<or> isSpace (hd tail)"
  shows "matchParamAt (''--'' @ n @ CHR ''='' # v @ tail) = Some ((n, Some v), tail)"
proof -
  have 1: "takeWhile isWord (n @ CHR ''='' # v @ tail) = n"
    and 2: "dropWhile isWord (n @ CHR ''='' # v @ tail) = CHR ''='' # v @ tail"
    using n(2) by (simp_all add: takeWhile_token eq_not_isWord)
  from t have t': "tail = [] \<or> \<not> \<not> isSpace (hd tail)" by simp
  have 3: "takeWhile (\<lambda>x. \<not> isSpace x) (v @ tail) = v"
    and 4: "dropWhile (\<lambda>x. \<not> isSpace x) (v @ tail) = tail"
    using v(2) t' by (rule takeWhile_token)+
  show ?thesis
    using n(1) v(1) by (simp add: matchParamAt_def Let_def 1 2 3 4)
qed

lemma matchParamAt_bare_token:
  assumes n: "n \<noteq> []" "\<forall>c\<in>set n. isWord c"
    and t: "tail = [] \<or> isSpace (hd tail)"
  shows "matchParamAt (''--'' @ n @ tail) = Some ((n, None), tail)"
proof -
  from t have t': "tail = [] \<or> \<not> isWord (hd tail)"
    by (auto dest: isSpace_not_isWord)
  have 1: "takeWhile isWord (n @ tail) = n" and 2: "dropWhile isWord (n @ tail) = tail"
    using n(2) t' by (rule takeWhile_token)+
  show ?thesis
  proof (cases tail)
    case Nil
    from n(2) have tw: "takeWhile isWord n = n" and dw: "dropWhile isWord n = []" by simp_all
    from n(1) Nil show ?thesis by (simp add: matchParamAt_def Let_def tw dw)
  next
    case (Cons c r)
    with t have c: "c \<noteq> CHR ''=''" by (auto dest: isSpace_not_eq)
    from 1 2 Cons have tw: "takeWhile isWord (n @ c # r) = n"
      and dw: "dropWhile isWord (n @ c # r) = c # r"
      by simp_all
    from n(1) c Cons show ?thesis by (simp add: matchParamAt_def Let_def tw dw)
  qed
qed

lemma execParamRegex_front:
  "matchParamAt s = Some m \<Longrightarrow> execParamRegex s = Some m"
  by (cases s) (simp_all add: matchParamAt_def)

lemma whileExec_Some:
  "execParamRegex s = Some (m, rest) \<Longrightarrow> whileExec body s st = whileExec body rest (body m st)"
  by (subst whileExec.simps) simp

lemma whileExec_None:
  "execParamRegex s = None \<Longrightarrow> whileExec body s st = st"
  by (subst whileExec.simps) simp

lemma paramMatches_acc:
  "\<forall>acc. whileExec (\<lambda>m acc. acc @ [m]) s acc = acc @ paramMatches s"
proof -
  fix body :: "string \<times> string option \<Rightarrow> unit \<Rightarrow> unit" and st :: unit
  show ?thesis
  proof (induction body s st rule: whileExec.induct)
    case (1 body s st)
    show ?case
    proof (cases "execParamRegex s")
      case None
      then show ?thesis by (simp add: whileExec_None paramMatches_def)
    next
      case (Some a)
      obtain m rest where a: "a = (m, rest)" by (cases a)
      with Some have e: "execParamRegex s = Some (m, rest)" by simp
      from a have a': "(m, rest) = a" by simp
      have ih: "\<forall>acc. whileExec (\<lambda>m acc. acc @ [m]) rest acc = acc @ paramMatches rest"
        using Some a' by (rule 1)
      show ?thesis
      proof
        fix acc
        have "whileExec (\<lambda>m acc. acc @ [m]) s acc = (acc @ [m]) @ paramMatches rest"
          using ih by (simp add: whileExec_Some [OF e])
        moreover have "paramMatches s = whileExec (\<lambda>m acc. acc @ [m]) rest [m]"
          by (simp add: paramMatches_def whileExec_Some [OF e])
        then have "paramMatches s = [m] @ paramMatches rest"
          using ih by simp
        ultimately show "whileExec (\<lambda>m acc. acc @ [m]) s acc = acc @ paramMatches s"
          by simp
      qed
    qed
  qed
qed

lemma paramMatches_Some:
  "execParamRegex s = Some (m, rest) \<Longrightarrow> paramMatches s = m # paramMatches rest"
proof -
  assume e: "execParamRegex s = Some (m, rest)"
  have "paramMatches s = whileExec (\<lambda>m acc. acc @ [m]) rest [m]"
    by (simp add: paramMatches_def whileExec_Some [OF e])
  then show ?thesis
    using paramMatches_acc [of rest] by simp
qed

lemma paramMatches_None:
  "execParamRegex s = None \<Longrightarrow> paramMatches s = []"
  by (simp add: paramMatches_def whileExec_None)

lemma whileExec_fold: "whileExec body s st = fold body (paramMatches s) st"
proof (induction body s st rule: whileExec.induct)
  case (1 body s st)
  show ?case
  proof (cases "execParamRegex s")
    case None
    then show ?thesis by (simp add: whileExec_None paramMatches_None)
  next
    case (Some a)
    obtain m rest where a: "a = (m, rest)" by (cases a)
    with Some have e: "execParamRegex s = Some (m, rest)" by simp
    from a have a': "(m, rest) = a" by simp
    have "whileExec body rest (body m st) = fold body (paramMatches rest) (body m st)"
      using Some a' by (rule 1)
    then show ?thesis
      by (simp add: whileExec_Some [OF e] paramMatches_Some [OF e])
  qed
qed

lemma matchParamAt_append:
  assumes "t \<noteq> []" and "isSpace (last t)"
  shows "matchParamAt (t @ s) = map_option (\<lambda>(m, r). (m, r @ s)) (matchParamAt t)"
proof (cases "prefix ''--'' t")
  case False
  from assms have l: "last t \<noteq> CHR ''-''" by (auto dest: isSpace_not_dash)
  have "\<not> prefix ''--'' (t @ s)"
  proof (cases t)
    case Nil
    with assms(1) show ?thesis by simp
  next
    case c: (Cons c r)
    show ?thesis
    proof (cases r)
      case Nil
      with c l show ?thesis by simp
    next
      case (Cons d u)
      with c False show ?thesis by simp
    qed
  qed
  with False show ?thesis by (simp add: matchParamAt_def)
next
  case True
  then obtain u where t: "t = ''--'' @ u" by (auto simp: prefix_def)
  have nd: "\<not> isSpace (CHR ''-'')" by (simp add: isSpace_def)
  have u: "u \<noteq> []"
  proof
    assume "u = []"
    with t assms(2) nd show False by simp
  qed
  with t assms(2) have lu: "isSpace (last u)" by simp
  define w where "w = last u"
  from u lu have w: "w \<in> set u" "\<not> isWord w" "isSpace w"
    by (simp_all add: w_def isSpace_not_isWord)
  have tw: "takeWhile isWord (u @ s) = takeWhile isWord u"
    using w by (intro takeWhile_append1 [of w]) auto
  have dw: "dropWhile isWord (u @ s) = dropWhile isWord u @ s"
    using w by (intro dropWhile_append1 [of w]) auto
  have wd: "w \<in> set (dropWhile isWord u)"
    using w(1,2) by (metis set_dropWhileD takeWhile_dropWhile_id set_append UnE set_takeWhileD)
  show ?thesis
  proof (cases "dropWhile isWord u")
    case Nil
    with wd show ?thesis by simp
  next
    case (Cons c r2)
    show ?thesis
    proof (cases "c = CHR ''=''")
      case False
      with Cons show ?thesis
        by (simp add: t matchParamAt_def Let_def tw dw)
    next
      case True
      with wd Cons w(3) have wr: "w \<in> set r2" by (auto dest: isSpace_not_eq)
      have tv: "takeWhile (\<lambda>x. \<not> isSpace x) (r2 @ s) = takeWhile (\<lambda>x. \<not> isSpace x) r2"
        using wr w(3) by (intro takeWhile_append1 [of w]) auto
      have dv: "dropWhile (\<lambda>x. \<not> isSpace x) (r2 @ s) = dropWhile (\<lambda>x. \<not> isSpace x) r2 @ s"
        using wr w(3) by (intro dropWhile_append1 [of w]) auto
      from Cons True show ?thesis
        by (simp add: t matchParamAt_def Let_def tw dw tv dv)
    qed
  qed
qed


lemma matchParamAt_suffix: "matchParamAt t = Some (m, r) \<Longrightarrow> suffix r t"
proof -
  assume a: "matchParamAt t = Some (m, r)"
  then have "prefix ''--'' t"
    by (auto simp: matchParamAt_def split: if_splits)
  then obtain u where t: "t = ''--'' @ u"
    by (auto simp: prefix_def)
  have su: "suffix u t" by (simp add: t suffix_def)
  have sd: "suffix (dropWhile isWord u) u" by (rule suffix_dropWhile)
  from a t have "r = dropWhile isWord u \<or>
      (\<exists>c r2. dropWhile isWord u = c # r2 \<and> r = dropWhile (\<lambda>x. \<not> isSpace x) r2)"
    by (auto simp: matchParamAt_def Let_def split: if_splits list.splits)
  then show ?thesis
  proof
    assume "r = dropWhile isWord u"
    with sd su show ?thesis by (auto intro: suffix_order.trans)
  next
    assume "\<exists>c r2. dropWhile isWord u = c # r2 \<and> r = dropWhile (\<lambda>x. \<not> isSpace x) r2"
    then obtain c r2 where d: "dropWhile isWord u = c # r2"
      and r: "r = dropWhile (\<lambda>x. \<not> isSpace x) r2" by blast
    have "suffix r r2" unfolding r by (rule suffix_dropWhile)
    moreover have "suffix r2 (c # r2)" by (simp add: suffix_ConsI)
    ultimately have "suffix r (dropWhile isWord u)"
      unfolding d by (rule suffix_order.trans)
    with sd su show ?thesis by (auto intro: suffix_order.trans)
  qed
qed

lemma execParamRegex_suffix: "execParamRegex t = Some (m, r) \<Longrightarrow> suffix r t"
proof (induction t)
  case Nil
  then show ?case by simp
next
  case (Cons c cs)
  show ?case
  proof (cases "matchParamAt (c # cs)")
    case None
    with Cons have "suffix r cs" by simp
    then show ?thesis by (rule suffix_ConsI)
  next
    case (Some a)
    with Cons.prems have "matchParamAt (c # cs) = Some (m, r)" by simp
    then show ?thesis by (rule matchParamAt_suffix)
  qed
qed

lemma suffix_last_space:
  assumes "suffix r t" and "t = [] \<or> isSpace (last t)"
  shows "r = [] \<or> isSpace (last r)"
proof (cases "r = []")
  case True
  then show ?thesis by simp
next
  case False
  from assms(1) obtain p where "t = p @ r" by (auto simp: suffix_def)
  with False assms(2) show ?thesis by simp
qed

lemma execParamRegex_append:
  assumes "t = [] \<or> isSpace (last t)"
  shows "execParamRegex (t @ s) =
     (case execParamRegex t of
        Some (m, r) \<Rightarrow> Some (m, r @ s)
      | None \<Rightarrow> execParamRegex s)"
  using assms
proof (induction t)
  case Nil
  then show ?case by simp
next
  case (Cons c cs)
  from Cons.prems have sp: "isSpace (last (c # cs))" by simp
  have m: "matchParamAt ((c # cs) @ s) = map_option (\<lambda>(m, r). (m, r @ s)) (matchParamAt (c # cs))"
    using sp by (intro matchParamAt_append) simp
  show ?case
  proof (cases "matchParamAt (c # cs)")
    case (Some a)
    with m show ?thesis by (cases a) simp
  next
    case None
    with m have n: "matchParamAt (c # cs @ s) = None" by simp
    from sp have "cs = [] \<or> isSpace (last cs)" by (simp split: if_splits)
    then have "execParamRegex (cs @ s) =
      (case execParamRegex cs of Some (m, r) \<Rightarrow> Some (m, r @ s) | None \<Rightarrow> execParamRegex s)"
      by (rule Cons.IH)
    with None n show ?thesis by simp
  qed
qed

lemma paramMatches_append:
  "pre = [] \<or> isSpace (last pre) \<longrightarrow> paramMatches (pre @ s) = paramMatches pre @ paramMatches s"
proof -
  fix body :: "string \<times> string option \<Rightarrow> unit \<Rightarrow> unit" and st :: unit
  show ?thesis
  proof (induction body pre st rule: whileExec.induct)
    case (1 body pre st)
    show ?case
    proof
      assume sp: "pre = [] \<or> isSpace (last pre)"
      note ap = execParamRegex_append [OF sp, of s]
      show "paramMatches (pre @ s) = paramMatches pre @ paramMatches s"
      proof (cases "execParamRegex pre")
        case None
        with ap have e: "execParamRegex (pre @ s) = execParamRegex s" by simp
        have "paramMatches (pre @ s) = paramMatches s"
        proof (cases "execParamRegex s")
          case None
          with e show ?thesis by (simp add: paramMatches_None)
        next
          case (Some b)
          obtain m r where "b = (m, r)" by (cases b)
          with Some e show ?thesis by (simp add: paramMatches_Some)
        qed
        with None show ?thesis by (simp add: paramMatches_None)
      next
        case (Some a)
        obtain m r where a: "a = (m, r)" by (cases a)
        with Some have e: "execParamRegex pre = Some (m, r)" by simp
        from a have a': "(m, r) = a" by simp
        from e ap have e2: "execParamRegex (pre @ s) = Some (m, r @ s)" by simp
        have "r = [] \<or> isSpace (last r)"
          using execParamRegex_suffix [OF e] sp by (rule suffix_last_space)
        moreover have "r = [] \<or> isSpace (last r) \<longrightarrow>
            paramMatches (r @ s) = paramMatches r @ paramMatches s"
          using Some a' by (rule 1)
        ultimately have "paramMatches (r @ s) = paramMatches r @ paramMatches s" by simp
        then show ?thesis
          by (simp add: paramMatches_Some [OF e] paramMatches_Some [OF e2])
      qed
    qed
  qed
qed

lemma paramMatches_token:
  assumes n: "n \<noteq> []" "\<forall>c\<in>set n. isWord c"
    and v: "case v of None \<Rightarrow> True | Some x \<Rightarrow> x \<noteq> [] \<and> (\<forall>c\<in>set x. \<not> isSpace c)"
    and pre: "pre = [] \<or> isSpace (last pre)"
    and post: "post = [] \<or> isSpace (hd post)"
  shows "paramMatches (pre @ ''--'' @ n @ (case v of None \<Rightarrow> [] | Some x \<Rightarrow> CHR ''='' # x) @ post) =
           paramMatches pre @ (n, v) # paramMatches post"
proof -
  have "matchParamAt (''--'' @ n @ (case v of None \<Rightarrow> [] | Some x \<Rightarrow> CHR ''='' # x) @ post)
          = Some ((n, v), post)"
  proof (cases v)
    case None
    with matchParamAt_bare_token [OF n post] show ?thesis by simp
  next
    case (Some x)
    with v have "x \<noteq> []" "\<forall>c\<in>set x. \<not> isSpace c" by simp_all
    from matchParamAt_value_token [OF n this post] Some show ?thesis by simp
  qed
  then have "execParamRegex (''--'' @ n @ (case v of None \<Rightarrow> [] | Some x \<Rightarrow> CHR ''='' # x) @ post)
          = Some ((n, v), post)"
    by (rule execParamRegex_front)
  then have "paramMatches (''--'' @ n @ (case v of None \<Rightarrow> [] | Some x \<Rightarrow> CHR ''='' # x) @ post)
          = (n, v) # paramMatches post"
    by (rule paramMatches_Some)
  with paramMatches_append [of pre] pre show ?thesis by simp
qed

lemma assignMatch_apply:
  "assignMatch (n, v) params k =
     (if n = k \<and> k \<noteq> ''__proto__''
      then Some (case v of None \<Rightarrow> Bool True | Some x \<Rightarrow> Str x) else params k)"
  by (simp add: assignMatch_def assign_def)

lemma fold_assignMatch_frame:
  "k \<notin> fst ` set ms \<Longrightarrow> fold assignMatch ms params k = params k"
  by (induction ms arbitrary: params) (auto simp: assignMatch_apply)

lemma fold_assignMatch_proto:
  "fold assignMatch ms params ''__proto__'' = params ''__proto__''"
  by (induction ms arbitrary: params) (auto simp: assignMatch_apply)

lemma fold_assignMatch_last:
  assumes "k \<noteq> ''__proto__''" and "k \<notin> fst ` set ms2"
  shows "fold assignMatch (ms1 @ (k, v) # ms2) params k =
           Some (case v of None \<Rightarrow> Bool True | Some x \<Rightarrow> Str x)"
  using assms by (simp add: fold_assignMatch_frame assignMatch_apply)

lemma fold_assignMatch_captured:
  assumes "k \<noteq> ''__proto__''" and "k \<in> fst ` set ms"
  shows "fold assignMatch ms params k \<noteq> None"
  using assms(2)
proof (induction ms rule: rev_induct)
  case Nil
  then show ?case by simp
next
  case (snoc m ms)
  obtain n v where m: "m = (n, v)" by (cases m)
  show ?case
  proof (cases "n = k")
    case True
    with assms(1) m show ?thesis by (simp add: assignMatch_apply)
  next
    case False
    with snoc.prems m have "k \<in> fst ` set ms" by auto
    then have "fold assignMatch ms params k \<noteq> None" by (rule snoc.IH)
    with False m show ?thesis by (simp add: assignMatch_apply)
  qed
qed

lemma setDefaults_frame:
  "\<forall>p\<in>set ps. param_name p = k \<longrightarrow> param_default p = None \<Longrightarrow> setDefaults ps m k = m k"
  unfolding setDefaults_def
  by (induction ps arbitrary: m) (auto simp: assign_def split: option.splits)

lemma setDefaults_proto: "setDefaults ps m ''__proto__'' = m ''__proto__''"
  unfolding setDefaults_def
  by (induction ps arbitrary: m) (simp_all add: assign_def split: option.splits)

lemma setDefaults_last:
  assumes "k \<noteq> ''__proto__''" and "param_name p = k" and "param_default p = Some d"
    and "\<forall>q\<in>set ps2. param_name q = k \<longrightarrow> param_default q = None"
  shows "setDefaults (ps1 @ p # ps2) m k = Some d"
proof -
  have "setDefaults (ps1 @ p # ps2) m = setDefaults ps2 (assign (setDefaults ps1 m) k d)"
    using assms(2,3) by (simp add: setDefaults_def)
  with assms(1) setDefaults_frame [OF assms(4)] show ?thesis
    by (simp add: assign_def)
qed

section \<open>parseParameters\<close>

text \<open>
  For a command that declares parameters, the mapping is the defaults overwritten by the
  matches of the parameter regular expression, in order.  A token \<open>--name=value\<close> or
  \<open>--name\<close> that stands between white space (or at an end of the string) is one match;
  a name is \<^emph>\<open>supplied\<close> when some match carries it.  Three facts follow for every key other
  than \<open>__proto__\<close>: a supplied key maps to the value of its last token (\<open>true\<close> for a
  bare token); an unsupplied key whose last declaration with a default has default \<open>d\<close>
  maps to \<open>d\<close>; an unsupplied key without a declared default is absent.
\<close>

lemma parseParameters_declared:
  "commands a c = Some cmd \<Longrightarrow> parameters cmd = Some ps \<Longrightarrow> ps \<noteq> [] \<Longrightarrow>
     parseParameters a c s = fold assignMatch (paramMatches s) (setDefaults ps Map.empty)"
  by (simp add: parseParameters_def whileExec_fold)

lemma parseParameters_none_declared:
  "commands a c = Some cmd \<Longrightarrow> parameters cmd = None \<or> parameters cmd = Some [] \<Longrightarrow>
     parseParameters a c s = Map.empty"
  by (auto simp: parseParameters_def)

lemma parseParameters_supplied:
  assumes cmd: "commands a c = Some cmd" "parameters cmd = Some ps" "ps \<noteq> []"
    and n: "n \<noteq> []" "\<forall>c\<in>set n. isWord c"
    and v: "case v of None \<Rightarrow> True | Some x \<Rightarrow> x \<noteq> [] \<and> (\<forall>c\<in>set x. \<not> isSpace c)"
    and pre: "pre = [] \<or> isSpace (last pre)"
    and post: "post = [] \<or> isSpace (hd post)"
    and proto: "n \<noteq> ''__proto__''"
  shows "parseParameters a c
           (pre @ ''--'' @ n @ (case v of None \<Rightarrow> [] | Some x \<Rightarrow> CHR ''='' # x) @ post) n \<noteq> None"
    and "n \<notin> fst ` set (paramMatches post) \<Longrightarrow>
         parseParameters a c
           (pre @ ''--'' @ n @ (case v of None \<Rightarrow> [] | Some x \<Rightarrow> CHR ''='' # x) @ post) n
         = Some (case v of None \<Rightarrow> Bool True | Some x \<Rightarrow> Str x)"
proof -
  let ?s = "pre @ ''--'' @ n @ (case v of None \<Rightarrow> [] | Some x \<Rightarrow> CHR ''='' # x) @ post"
  have pm: "paramMatches ?s = paramMatches pre @ (n, v) # paramMatches post"
    using n v pre post by (rule paramMatches_token)
  have pp: "parseParameters a c ?s = fold assignMatch (paramMatches ?s) (setDefaults ps Map.empty)"
    using cmd by (rule parseParameters_declared)
  have "n \<in> fst ` set (paramMatches ?s)"
    unfolding pm by (simp add: image_iff)
  with proto show "parseParameters a c ?s n \<noteq> None"
    unfolding pp by (rule fold_assignMatch_captured)
  assume "n \<notin> fst ` set (paramMatches post)"
  with proto show "parseParameters a c ?s n = Some (case v of None \<Rightarrow> Bool True | Some x \<Rightarrow> Str x)"
    unfolding pp pm by (rule fold_assignMatch_last)
qed

lemma parseParameters_default:
  assumes cmd: "commands a c = Some cmd" "parameters cmd = Some (ps1 @ p # ps2)"
    and p: "param_default p = Some d"
      "\<forall>q\<in>set ps2. param_name q = param_name p \<longrightarrow> param_default q = None"
    and unsupplied: "param_name p \<notin> fst ` set (paramMatches s)"
    and proto: "param_name p \<noteq> ''__proto__''"
  shows "parseParameters a c s (param_name p) = Some d"
proof -
  have "parseParameters a c s =
          fold assignMatch (paramMatches s) (setDefaults (ps1 @ p # ps2) Map.empty)"
    using cmd by (rule parseParameters_declared) simp
  with unsupplied setDefaults_last [OF proto refl p] show ?thesis
    by (simp add: fold_assignMatch_frame)
qed

lemma parseParameters_absent:
  assumes cmd: "commands a c = Some cmd" "parameters cmd = Some ps"
    and nodefault: "\<forall>p\<in>set ps. param_name p = k \<longrightarrow> param_default p = None"
    and unsupplied: "k \<notin> fst ` set (paramMatches s)"
  shows "parseParameters a c s k = None"
proof (cases "ps = []")
  case True
  with cmd show ?thesis by (simp add: parseParameters_def)
next
  case False
  with cmd have "parseParameters a c s = fold assignMatch (paramMatches s) (setDefaults ps Map.empty)"
    by (rule parseParameters_declared)
  with unsupplied setDefaults_frame [OF nodefault, of Map.empty] show ?thesis
    by (simp add: fold_assignMatch_frame)
qed

lemma paramMatches_Nil: "paramMatches [] = []"
  by (simp add: paramMatches_None)

lemma paramMatches_proto: "paramMatches ''--__proto__=5'' = [(''__proto__'', Some ''5'')]"
  using paramMatches_token [of "''__proto__''" "Some ''5''" "[]" "[]"]
  by (simp add: isWord_def isSpace_def paramMatches_Nil)

text \<open>
  C4.  The claim: for a command with declared parameters, \<open>parseParameters\<close> maps every
  \<open>--name=value\<close> token to its value and every bare token to \<open>true\<close>, a later
  duplicate wins, and unsupplied parameters take their default or stay absent.  The code
  at the parameter string \<open>--__proto__=5\<close> for \<open>loop\<close>: the regular expression matches the
  token, with name \<open>__proto__\<close> and value \<open>5\<close>, but \<open>params['__proto__'] = '5'\<close> on the
  plain object creates no property; the mapping returned holds the default of
  \<open>iterations\<close> only.  (For every other name the claim holds: \<open>parseParameters_supplied\<close>,
  \<open>parseParameters_default\<close>, \<open>parseParameters_absent\<close>.)
\<close>

theorem parseParameters_proto_dropped:
  "paramMatches ''--__proto__=5'' = [(''__proto__'', Some ''5'')]
   \<and> parseParameters (ModelAdapter_new k key opts) ''loop'' ''--__proto__=5'' =
       [''iterations'' \<mapsto> Num 3]
   \<and> parseParameters (ModelAdapter_new k key opts) ''loop'' ''--__proto__=5'' ''__proto__'' = None"
proof -
  have "parseParameters (ModelAdapter_new k key opts) ''loop'' ''--__proto__=5'' =
       [''iterations'' \<mapsto> Num 3]"
    by (simp add: parseParameters_def core_commands whileExec_fold paramMatches_proto
          setDefaults_def assignMatch_def assign_def)
  with paramMatches_proto show ?thesis by simp
qed

lemma matchCommand_think_depth:
  "matchCommand ''/think --depth=3 hi'' =
     Some (''/think --depth=3 hi'', ''think'', Some ''--depth=3 hi'')"
  by (simp add: matchCommand_def isWord_def isSpace_def notNewline_def Let_def)

lemma paramMatches_depth_hi: "paramMatches ''--depth=3 hi'' = [(''depth'', Some ''3'')]"
proof -
  have "execParamRegex '' hi'' = None"
    by (simp add: matchParamAt_def)
  then have "paramMatches '' hi'' = []" by (rule paramMatches_None)
  with paramMatches_token [of "''depth''" "Some ''3''" "[]" "'' hi''"] show ?thesis
    by (simp add: isWord_def isSpace_def paramMatches_Nil)
qed

text \<open>
  C5.  The claim: a supplied token whose name is not declared is still captured, also for
  commands such as \<open>think\<close> or \<open>fast\<close> that declare no parameters.  The code returns the
  empty mapping for a command without declared parameters before it looks at the
  parameter string: \<open>/think --depth=3 hi\<close> resolves \<open>think\<close>, the parameter regular
  expression would match \<open>--depth=3\<close>, and the mapping has no key \<open>depth\<close>.
\<close>

theorem parseParameters_think_captures_nothing:
  "command (parseCommand (ModelAdapter_new ClaudeAdapter ''key'' emptyOptions) ''/think --depth=3 hi'')
     = Some ''think''
   \<and> paramMatches ''--depth=3 hi'' = [(''depth'', Some ''3'')]
   \<and> parameters_of (parseCommand (ModelAdapter_new ClaudeAdapter ''key'' emptyOptions)
        ''/think --depth=3 hi'') ''depth'' = None
   \<and> parseParameters (ModelAdapter_new ClaudeAdapter ''key'' emptyOptions) ''think''
        ''--depth=3 hi'' ''depth'' = None"
  by (simp add: parseCommand_def matchCommand_think_depth commandName_of_def core_aliasMap
        core_commands parseParameters_def paramMatches_depth_hi)

text \<open>
  C5, amended.  For every resolved command that declares at least one parameter and every
  parameter string, a token \<open>--name=value\<close> or \<open>--name\<close> that stands between white space
  (or at an end of the string), whose name is not among the declared parameters and is
  not \<open>__proto__\<close>, is captured in the mapping, with the value of the token (\<open>true\<close> for a
  bare token) unless a later match carries the same name; for a command that declares
  no parameters the mapping is empty, whatever the parameter string.
\<close>

theorem parseParameters_captures_tokens:
  assumes cmd: "commands a c = Some cmd"
  shows "(parameters cmd = Some ps \<and> ps \<noteq> []
          \<and> n \<noteq> [] \<and> (\<forall>x\<in>set n. isWord x)
          \<and> (case v of None \<Rightarrow> True | Some x \<Rightarrow> x \<noteq> [] \<and> (\<forall>y\<in>set x. \<not> isSpace y))
          \<and> (pre = [] \<or> isSpace (last pre)) \<and> (post = [] \<or> isSpace (hd post))
          \<and> n \<notin> param_name ` set ps \<and> n \<noteq> ''__proto__''
          \<longrightarrow> parseParameters a c
                (pre @ ''--'' @ n @ (case v of None \<Rightarrow> [] | Some x \<Rightarrow> CHR ''='' # x) @ post) n \<noteq> None
             \<and> (n \<notin> fst ` set (paramMatches post) \<longrightarrow>
                  parseParameters a c
                    (pre @ ''--'' @ n @ (case v of None \<Rightarrow> [] | Some x \<Rightarrow> CHR ''='' # x) @ post) n
                  = Some (case v of None \<Rightarrow> Bool True | Some x \<Rightarrow> Str x)))
     \<and> (parameters cmd = None \<or> parameters cmd = Some [] \<longrightarrow> parseParameters a c s = Map.empty)"
proof (intro conjI impI)
  assume h: "parameters cmd = Some ps \<and> ps \<noteq> []
          \<and> n \<noteq> [] \<and> (\<forall>x\<in>set n. isWord x)
          \<and> (case v of None \<Rightarrow> True | Some x \<Rightarrow> x \<noteq> [] \<and> (\<forall>y\<in>set x. \<not> isSpace y))
          \<and> (pre = [] \<or> isSpace (last pre)) \<and> (post = [] \<or> isSpace (hd post))
          \<and> n \<notin> param_name ` set ps \<and> n \<noteq> ''__proto__''"
  then have p: "parameters cmd = Some ps" "ps \<noteq> []"
    and n: "n \<noteq> []" "\<forall>x\<in>set n. isWord x"
    and v: "case v of None \<Rightarrow> True | Some x \<Rightarrow> x \<noteq> [] \<and> (\<forall>y\<in>set x. \<not> isSpace y)"
    and pre: "pre = [] \<or> isSpace (last pre)" and post: "post = [] \<or> isSpace (hd post)"
    and proto: "n \<noteq> ''__proto__''"
    by simp_all
  show "parseParameters a c
          (pre @ ''--'' @ n @ (case v of None \<Rightarrow> [] | Some x \<Rightarrow> CHR ''='' # x) @ post) n \<noteq> None"
    using cmd p n v pre post proto by (rule parseParameters_supplied(1))
  assume "n \<notin> fst ` set (paramMatches post)"
  with cmd p n v pre post proto
  show "parseParameters a c
          (pre @ ''--'' @ n @ (case v of None \<Rightarrow> [] | Some x \<Rightarrow> CHR ''='' # x) @ post) n
        = Some (case v of None \<Rightarrow> Bool True | Some x \<Rightarrow> Str x)"
    by (rule parseParameters_supplied(2))
next
  assume "parameters cmd = None \<or> parameters cmd = Some []"
  with cmd show "parseParameters a c s = Map.empty"
    by (rule parseParameters_none_declared)
qed

theorem parseParameters_captures_tokens_witness:
  "commands (ModelAdapter_new ClaudeAdapter ''key'' emptyOptions) ''loop'' =
      Some \<lparr>name = ''loop'', description = ''Enable iterative refinement cycles'',
            aliases = None,
            parameters = Some [\<lparr>param_name = ''iterations'',
                                 param_description = ''Number of refinement iterations'',
                                 param_required = Some False, param_default = Some (Num 3)\<rparr>],
            transform = TransformLoop\<rparr>
   \<and> list_all isWord ''depth'' \<and> list_all (\<lambda>y. \<not> isSpace y) ''3'' \<and> isSpace (hd '' hi'')
   \<and> ''depth'' \<notin> fst ` set (paramMatches '' hi'')
   \<and> parseParameters (ModelAdapter_new ClaudeAdapter ''key'' emptyOptions) ''loop''
      ''--depth=3 hi'' ''depth'' = Some (Str ''3'')
   \<and> commands (ModelAdapter_new ClaudeAdapter ''key'' emptyOptions) ''think'' =
      Some \<lparr>name = ''think'', description = ''Activate extended reasoning pathways'',
            aliases = None, parameters = None, transform = TransformThink\<rparr>
   \<and> parseParameters (ModelAdapter_new ClaudeAdapter ''key'' emptyOptions) ''think''
      ''--depth=3 hi'' = Map.empty"
proof -
  let ?a = "ModelAdapter_new ClaudeAdapter ''key'' emptyOptions"
  let ?ps = "[\<lparr>param_name = ''iterations'',
               param_description = ''Number of refinement iterations'',
               param_required = Some False, param_default = Some (Num 3)\<rparr>]"
  let ?loop = "\<lparr>name = ''loop'', description = ''Enable iterative refinement cycles'',
            aliases = None, parameters = Some ?ps, transform = TransformLoop\<rparr>"
  let ?think = "\<lparr>name = ''think'', description = ''Activate extended reasoning pathways'',
            aliases = None, parameters = None, transform = TransformThink\<rparr>"
  have l: "commands ?a ''loop'' = Some ?loop" and t: "commands ?a ''think'' = Some ?think"
    by (simp_all add: core_commands)
  have e: "execParamRegex '' hi'' = None"
    by (simp add: matchParamAt_def)
  have h: "parameters ?loop = Some ?ps \<and> ?ps \<noteq> []
          \<and> ''depth'' \<noteq> [] \<and> (\<forall>x\<in>set ''depth''. isWord x)
          \<and> (case Some ''3'' of None \<Rightarrow> True | Some x \<Rightarrow> x \<noteq> [] \<and> (\<forall>y\<in>set x. \<not> isSpace y))
          \<and> ([] = [] \<or> isSpace (last [])) \<and> ('' hi'' = [] \<or> isSpace (hd '' hi''))
          \<and> ''depth'' \<notin> param_name ` set ?ps \<and> ''depth'' \<noteq> ''__proto__''"
    by (simp add: isWord_def isSpace_def)
  have u: "''depth'' \<notin> fst ` set (paramMatches '' hi'')"
    by (simp add: paramMatches_None [OF e])
  have n: "parameters ?think = None \<or> parameters ?think = Some []" by simp
  from parseParameters_captures_tokens [OF l, of ?ps "''depth''" "Some ''3''" "[]" "'' hi''"] h u
  have 1: "parseParameters ?a ''loop'' ''--depth=3 hi'' ''depth'' = Some (Str ''3'')"
    by simp
  from parseParameters_captures_tokens [OF t, of _ _ None _ _ "''--depth=3 hi''"] n
  have 2: "parseParameters ?a ''think'' ''--depth=3 hi'' = Map.empty"
    by simp
  have c1: "list_all isWord ''depth''" and c2: "list_all (\<lambda>y. \<not> isSpace y) ''3''"
    and c3: "isSpace (hd '' hi'')"
    by (simp_all add: isWord_def isSpace_def)
  from l c1 c2 c3 u 1 t 2 show ?thesis by (intro conjI)
qed

end
